theory Spec2Isabelle
  imports Complex_Main "HOL-Library.Product_Lexorder" "HOL-Library.Sublist" "HOL-Library.Multiset"
begin

section \<open>Python values and the interpreter's facilities\<close>

text \<open>
  The two modules \<^verbatim>\<open>polar_detect.py\<close> and \<^verbatim>\<open>lnd_client.py\<close> work on the value that
  \<^verbatim>\<open>json.load\<close> returns: \<^verbatim>\<open>None\<close>, a bool, an int, a float, a str, a list or a dict.
  A dict is kept as the list of its members in file order; a lookup takes the last
  member of a name, as the parser does when a name is repeated. A str is a list of
  one-byte characters: the development covers ASCII text, where \<^verbatim>\<open>str.upper\<close> and
  \<^verbatim>\<open>str.lower\<close> change the 26 letters only. A float is one of the finite values (kept as
  a rational number, which covers every double), the two infinities and not-a-number.
\<close>

datatype pyfloat = Finite rat | PosInf | NegInf | NaN

datatype json =
    JNull
  | JBool bool
  | JInt int
  | JFloat pyfloat
  | JStr string
  | JArr "json list"
  | JObj "(string \<times> json) list"

text \<open>
  Exceptions are values. Every place of the source that can raise is a branch that
  returns \<open>Inl\<close> of one of these.
\<close>

record http_response =
  status_code :: int
  reason :: string
  url :: string
  content :: string

datatype py_error =
    AttributeError
  | TypeError
  | ValueError string
  | OverflowError
  | UnicodeDecodeError
  | OSError
  | NotADirectoryError
  | ConnectionError string
  | HTTPError string http_response
  | RequestException
  | JSONDecodeError

text \<open>
  The state of the file at \<^verbatim>\<open>POLAR_NETWORKS_FILE\<close> as the three steps of the source see it:
  \<^verbatim>\<open>os.path.exists\<close> is false (\<open>Missing\<close>); \<^verbatim>\<open>open\<close> or the read raises an
  \<^verbatim>\<open>IOError\<close> (\<open>Unreadable\<close>); the bytes are not text in the default encoding, so that
  the read inside \<^verbatim>\<open>json.load\<close> raises \<^verbatim>\<open>UnicodeDecodeError\<close> (\<open>Undecodable\<close>); the text
  is not JSON and \<^verbatim>\<open>json.load\<close> raises \<^verbatim>\<open>json.JSONDecodeError\<close> (\<open>NotJSON\<close>); or
  \<^verbatim>\<open>json.load\<close> returns a value.
\<close>

datatype file_state = Missing | Unreadable | Undecodable | NotJSON | Parsed json

text \<open>
  What the modules take from the operating system and the interpreter and do not
  implement themselves: the process environment, \<^verbatim>\<open>os.path.expanduser\<close> (which depends
  on \<^verbatim>\<open>HOME\<close> and the user database), the descriptor file, \<^verbatim>\<open>int\<close> applied to a str
  (\<open>None\<close> stands for \<^verbatim>\<open>ValueError\<close>), and \<^verbatim>\<open>repr\<close> of a float, a list or a dict.
\<close>

record world =
  environ :: "string \<rightharpoonup> string"
  expanduser :: "string \<Rightarrow> string"
  networks_file :: file_state
  int_of_str :: "string \<Rightarrow> int option"
  repr :: "json \<Rightarrow> string"

subsection \<open>Operations of the interpreter on a value\<close>

text \<open>\<^verbatim>\<open>bool(v)\<close>, the test behind \<^verbatim>\<open>if not v\<close> and \<^verbatim>\<open>a or b\<close>.\<close>

fun truthy :: "json \<Rightarrow> bool" where
  "truthy JNull = False"
| "truthy (JBool b) = b"
| "truthy (JInt i) = (i \<noteq> 0)"
| "truthy (JFloat (Finite r)) = (r \<noteq> 0)"
| "truthy (JFloat f) = True"
| "truthy (JStr s) = (s \<noteq> [])"
| "truthy (JArr xs) = (xs \<noteq> [])"
| "truthy (JObj kvs) = (kvs \<noteq> [])"

text \<open>\<^verbatim>\<open>v.get(k, d)\<close>: only a dict has the method.\<close>

fun py_get :: "json \<Rightarrow> string \<Rightarrow> json \<Rightarrow> py_error + json" where
  "py_get (JObj kvs) k d = Inr (case map_of (rev kvs) k of None \<Rightarrow> d | Some v \<Rightarrow> v)"
| "py_get v k d = Inl AttributeError"

text \<open>
  The elements \<^verbatim>\<open>for x in v\<close> and \<^verbatim>\<open>sorted(v)\<close> run over: the items of a list, the
  characters of a str, the keys of a dict; anything else is not iterable.
\<close>

fun py_iter :: "json \<Rightarrow> py_error + json list" where
  "py_iter (JArr xs) = Inr xs"
| "py_iter (JStr s) = Inr (map (\<lambda>c. JStr [c]) s)"
| "py_iter (JObj kvs) = Inr (map JStr (rev (remdups (rev (map fst kvs)))))"
| "py_iter v = Inl TypeError"

text \<open>\<^verbatim>\<open>int(v)\<close>: a float is truncated towards zero.\<close>

definition trunc :: "rat \<Rightarrow> int" where
  "trunc r = (if r < 0 then - \<lfloor>- r\<rfloor> else \<lfloor>r\<rfloor>)"

fun py_int :: "world \<Rightarrow> json \<Rightarrow> py_error + int" where
  "py_int w (JInt i) = Inr i"
| "py_int w (JBool b) = Inr (if b then 1 else 0)"
| "py_int w (JFloat (Finite r)) = Inr (trunc r)"
| "py_int w (JFloat NaN) = Inl (ValueError ''cannot convert float NaN to integer'')"
| "py_int w (JFloat f) = Inl OverflowError"
| "py_int w (JStr s) =
     (case int_of_str w s of
        None \<Rightarrow> Inl (ValueError ''invalid literal for int() with base 10'')
      | Some i \<Rightarrow> Inr i)"
| "py_int w v = Inl TypeError"

text \<open>\<^verbatim>\<open>str(n)\<close> of an int: decimal digits, with a minus sign below zero.\<close>

definition digit_char :: "nat \<Rightarrow> char" where
  "digit_char d = ''0123456789'' ! d"

function str_of_nat :: "nat \<Rightarrow> string" where
  "str_of_nat n = (if n < 10 then [digit_char n] else str_of_nat (n div 10) @ [digit_char (n mod 10)])"
  by pat_completeness auto
termination
  by (relation "measure (\<lambda>n. n)") auto

declare str_of_nat.simps [simp del]

definition str_of_int :: "int \<Rightarrow> string" where
  "str_of_int i = (if i < 0 then CHR ''-'' # str_of_nat (nat (- i)) else str_of_nat (nat i))"

text \<open>What an f-string puts in place of \<^verbatim>\<open>{v}\<close>, that is \<^verbatim>\<open>str(v)\<close>.\<close>

fun py_str :: "world \<Rightarrow> json \<Rightarrow> string" where
  "py_str w JNull = ''None''"
| "py_str w (JBool b) = (if b then ''True'' else ''False'')"
| "py_str w (JInt i) = str_of_int i"
| "py_str w (JStr s) = s"
| "py_str w v = repr w v"

text \<open>\<^verbatim>\<open>str.upper\<close> and \<^verbatim>\<open>str.lower\<close> on ASCII text.\<close>

definition upper_char :: "char \<Rightarrow> char" where
  "upper_char c =
     (case map_of (zip ''abcdefghijklmnopqrstuvwxyz'' ''ABCDEFGHIJKLMNOPQRSTUVWXYZ'') c of
        None \<Rightarrow> c
      | Some u \<Rightarrow> u)"

definition lower_char :: "char \<Rightarrow> char" where
  "lower_char c =
     (case map_of (zip ''ABCDEFGHIJKLMNOPQRSTUVWXYZ'' ''abcdefghijklmnopqrstuvwxyz'') c of
        None \<Rightarrow> c
      | Some l \<Rightarrow> l)"

definition upper :: "string \<Rightarrow> string" where
  "upper s = map upper_char s"

definition lower :: "string \<Rightarrow> string" where
  "lower s = map lower_char s"

text \<open>
  The receiver of \<^verbatim>\<open>v.upper()\<close> and \<^verbatim>\<open>v.lower()\<close>: of the parsed values only a str
  has the two methods.
\<close>

fun str_method :: "json \<Rightarrow> py_error + string" where
  "str_method (JStr s) = Inr s"
| "str_method v = Inl AttributeError"

text \<open>
  \<^verbatim>\<open>os.path.join\<close> of the POSIX path module: a component that starts with a slash
  discards what came before it, and no second slash is put after one.
\<close>

definition join2 :: "string \<Rightarrow> string \<Rightarrow> string" where
  "join2 path b =
     (if (b \<noteq> [] \<and> hd b = CHR ''/'') \<or> path = [] then b
      else if last path = CHR ''/'' then path @ b
      else path @ ''/'' @ b)"

definition join :: "string \<Rightarrow> string list \<Rightarrow> string" where
  "join a p = foldl join2 a p"

text \<open>With a first argument that is not a str, \<^verbatim>\<open>os.path.join\<close> raises \<^verbatim>\<open>TypeError\<close>.\<close>

fun py_join :: "json \<Rightarrow> string list \<Rightarrow> py_error + string" where
  "py_join (JStr a) p = Inr (join a p)"
| "py_join v p = Inl TypeError"

section \<open>polar\_detect.py\<close>

text \<open>The dict that \<^verbatim>\<open>find_polar_node\<close> returns.\<close>

record polar_node =
  name :: string
  lnd_dir :: string
  rest_host :: string
  rest_port :: json
  network_name :: json

text \<open>
  The inner function \<^verbatim>\<open>sort_key\<close>: the pair of the running flag and the numeric
  identifier. A network that is not a dict has no \<^verbatim>\<open>get\<close>.
\<close>

definition sort_key_net :: "world \<Rightarrow> json \<Rightarrow> py_error + (nat \<times> int)" where
  "sort_key_net w net =
     (case py_get net ''status'' (JStr []) of
        Inl e \<Rightarrow> Inl e
      | Inr status \<Rightarrow>
          (let is_running = (if status = JStr ''Started'' then 1 else 0) in
           case py_get net ''id'' (JInt 0) of
             Inl e \<Rightarrow> Inl e
           | Inr i \<Rightarrow>
               (case py_int w i of
                  Inl e \<Rightarrow> Inl e
                | Inr net_id \<Rightarrow> Inr (is_running, net_id))))"

text \<open>The keys of all items, computed in order before any comparison; the first failure is raised.\<close>

fun sort_keys :: "world \<Rightarrow> json list \<Rightarrow> py_error + (nat \<times> int) list" where
  "sort_keys w [] = Inr []"
| "sort_keys w (net # nets) =
     (case sort_key_net w net of
        Inl e \<Rightarrow> Inl e
      | Inr k \<Rightarrow>
          (case sort_keys w nets of
             Inl e \<Rightarrow> Inl e
           | Inr ks \<Rightarrow> Inr (k # ks)))"

text \<open>
  \<^verbatim>\<open>sorted(networks, key=sort_key, reverse=True)\<close>. The sort is stable, and with
  \<^verbatim>\<open>reverse=True\<close> the list is reversed, sorted upwards and reversed again, so that
  items of equal key keep their order. Pairs are compared lexicographically.
\<close>

definition sorted_reverse :: "world \<Rightarrow> json \<Rightarrow> py_error + json list" where
  "sorted_reverse w networks =
     (case py_iter networks of
        Inl e \<Rightarrow> Inl e
      | Inr nets \<Rightarrow>
          (case sort_keys w nets of
             Inl e \<Rightarrow> Inl e
           | Inr ks \<Rightarrow> Inr (map snd (rev (sort_key fst (rev (zip ks nets)))))))"

text \<open>The body of the inner loop from the comment "Build the LND directory path" on.\<close>

definition build_node :: "world \<Rightarrow> json \<Rightarrow> json \<Rightarrow> string \<Rightarrow> py_error + polar_node" where
  "build_node w network node nm =
     (case py_get network ''path'' (JStr []) of
        Inl e \<Rightarrow> Inl e
      | Inr p \<Rightarrow>
          (case (if \<not> truthy p
                 then (case py_get network ''id'' (JStr []) of
                         Inl e \<Rightarrow> Inl e
                       | Inr net_id \<Rightarrow>
                           Inr (JStr (expanduser w (''~/.polar/networks/'' @ py_str w net_id))))
                 else Inr p) of
             Inl e \<Rightarrow> Inl e
           | Inr network_path \<Rightarrow>
               (case py_join network_path [''volumes'', ''lnd'', nm] of
                  Inl e \<Rightarrow> Inl e
                | Inr dir \<Rightarrow>
                    (case py_get node ''ports'' (JObj []) of
                       Inl e \<Rightarrow> Inl e
                     | Inr ports \<Rightarrow>
                         (case py_get ports ''rest'' (JInt 8082) of
                            Inl e \<Rightarrow> Inl e
                          | Inr port \<Rightarrow>
                              (case py_get network ''name'' (JStr ''unknown'') of
                                 Inl e \<Rightarrow> Inl e
                               | Inr nn \<Rightarrow>
                                   Inr \<lparr>name = nm, lnd_dir = dir,
                                        rest_host = ''https://127.0.0.1:'' @ py_str w port,
                                        rest_port = port, network_name = nn\<rparr>))))))"

text \<open>The inner loop \<^verbatim>\<open>for node in lnd_nodes\<close>: the first node that passes both tests returns.\<close>

fun scan_nodes :: "world \<Rightarrow> string \<Rightarrow> json \<Rightarrow> json list \<Rightarrow> py_error + polar_node option" where
  "scan_nodes w node_name network [] = Inr None"
| "scan_nodes w node_name network (node # rest) =
     (case py_get node ''implementation'' (JStr []) of
        Inl e \<Rightarrow> Inl e
      | Inr impl \<Rightarrow>
          (case py_get node ''name'' (JStr []) of
             Inl e \<Rightarrow> Inl e
           | Inr nm \<Rightarrow>
               (case str_method impl of
                  Inl e \<Rightarrow> Inl e
                | Inr i \<Rightarrow>
                    if upper i \<noteq> ''LND'' then scan_nodes w node_name network rest
                    else
                      (case str_method nm of
                         Inl e \<Rightarrow> Inl e
                       | Inr n \<Rightarrow>
                           if lower n \<noteq> lower node_name then scan_nodes w node_name network rest
                           else
                             (case build_node w network node n of
                                Inl e \<Rightarrow> Inl e
                              | Inr r \<Rightarrow> Inr (Some r))))))"

text \<open>The outer loop \<^verbatim>\<open>for network in networks_sorted\<close>.\<close>

fun scan_networks :: "world \<Rightarrow> string \<Rightarrow> json list \<Rightarrow> py_error + polar_node option" where
  "scan_networks w node_name [] = Inr None"
| "scan_networks w node_name (network # rest) =
     (case py_get network ''nodes'' (JObj []) of
        Inl e \<Rightarrow> Inl e
      | Inr nodes \<Rightarrow>
          (case py_get nodes ''lightning'' (JArr []) of
             Inl e \<Rightarrow> Inl e
           | Inr lightning \<Rightarrow>
               (case py_iter lightning of
                  Inl e \<Rightarrow> Inl e
                | Inr lnd_nodes \<Rightarrow>
                    (case scan_nodes w node_name network lnd_nodes of
                       Inl e \<Rightarrow> Inl e
                     | Inr (Some r) \<Rightarrow> Inr (Some r)
                     | Inr None \<Rightarrow> scan_networks w node_name rest))))"

definition find_polar_node :: "world \<Rightarrow> string \<Rightarrow> py_error + polar_node option" where
  "find_polar_node w node_name =
     (case networks_file w of
        Missing \<Rightarrow> Inr None
      | Unreadable \<Rightarrow> Inr None
      | Undecodable \<Rightarrow> Inl UnicodeDecodeError
      | NotJSON \<Rightarrow> Inr None
      | Parsed data \<Rightarrow>
          (case py_get data ''networks'' (JArr []) of
             Inl e \<Rightarrow> Inl e
           | Inr networks \<Rightarrow>
               if \<not> truthy networks then Inr None
               else
                 (case sorted_reverse w networks of
                    Inl e \<Rightarrow> Inl e
                  | Inr networks_sorted \<Rightarrow> scan_networks w node_name networks_sorted)))"

text \<open>
  The truth value of a value that is \<^verbatim>\<open>None\<close> or a str, as \<^verbatim>\<open>os.environ.get\<close> returns it
  and as \<^verbatim>\<open>self.macaroon\<close> holds it: a str that is not empty.
\<close>

definition str_truthy :: "string option \<Rightarrow> bool" where
  "str_truthy v = (case v of None \<Rightarrow> False | Some s \<Rightarrow> s \<noteq> [])"

definition auto_detect :: "world \<Rightarrow> string \<Rightarrow> py_error + (string option \<times> string option)" where
  "auto_detect w node_name =
     (let env_lnd_dir = environ w ''LND_DIR'';
          env_rest_host = environ w ''REST_HOST''
      in if str_truthy env_lnd_dir \<and> str_truthy env_rest_host
         then Inr (map_option (expanduser w) env_lnd_dir, env_rest_host)
         else
           (case find_polar_node w node_name of
              Inl e \<Rightarrow> Inl e
            | Inr None \<Rightarrow> Inr (None, None)
            | Inr (Some polar) \<Rightarrow> Inr (Some (lnd_dir polar), Some (rest_host polar))))"

subsection \<open>Vocabulary for the properties of the scan\<close>

text \<open>
  The two tests of the inner loop as one predicate on a node entry: the entry is a
  dict, its implementation is a str whose upper-case form is \<^verbatim>\<open>LND\<close>, and its name is
  a str whose lower-case form is that of the requested name.
\<close>

definition node_matches :: "string \<Rightarrow> json \<Rightarrow> bool" where
  "node_matches node_name node =
     (case py_get node ''implementation'' (JStr []) of
        Inl e \<Rightarrow> False
      | Inr impl \<Rightarrow>
          (case str_method impl of
             Inl e \<Rightarrow> False
           | Inr i \<Rightarrow>
               upper i = ''LND'' \<and>
               (case py_get node ''name'' (JStr []) of
                  Inl e \<Rightarrow> False
                | Inr nm \<Rightarrow>
                    (case str_method nm of
                       Inl e \<Rightarrow> False
                     | Inr n \<Rightarrow> lower n = lower node_name))))"

text \<open>The entries the inner loop runs over for a network, when the three steps that fetch them do not raise.\<close>

definition lightning_nodes :: "json \<Rightarrow> json list option" where
  "lightning_nodes network =
     (case py_get network ''nodes'' (JObj []) of
        Inl e \<Rightarrow> None
      | Inr nodes \<Rightarrow>
          (case py_get nodes ''lightning'' (JArr []) of
             Inl e \<Rightarrow> None
           | Inr lightning \<Rightarrow>
               (case py_iter lightning of
                  Inl e \<Rightarrow> None
                | Inr lnd_nodes \<Rightarrow> Some lnd_nodes)))"

text \<open>The status test of \<^verbatim>\<open>sort_key\<close>: the status is exactly the str \<^verbatim>\<open>Started\<close>.\<close>

definition started :: "json \<Rightarrow> bool" where
  "started net = (py_get net ''status'' (JStr []) = Inr (JStr ''Started''))"

section \<open>lnd\_client.py\<close>

text \<open>\<^verbatim>\<open>a or b\<close> where \<^verbatim>\<open>a\<close> is \<^verbatim>\<open>None\<close> or a str: \<^verbatim>\<open>b\<close> unless \<^verbatim>\<open>a\<close> is a str that is not empty.\<close>

definition py_or :: "string option \<Rightarrow> string \<Rightarrow> string" where
  "py_or a b = (case a of None \<Rightarrow> b | Some s \<Rightarrow> if s = [] then b else s)"

text \<open>
  The module constants \<^verbatim>\<open>LND_DIR\<close> and \<^verbatim>\<open>REST_HOST\<close>, computed when the module is
  imported. An exception of \<^verbatim>\<open>auto_detect\<close> there leaves the module not imported.
\<close>

record module_constants =
  LND_DIR :: string
  REST_HOST :: string

definition import_module :: "world \<Rightarrow> py_error + module_constants" where
  "import_module w =
     (case auto_detect w ''bob'' of
        Inl e \<Rightarrow> Inl e
      | Inr (detected_dir, detected_host) \<Rightarrow>
          Inr \<lparr>LND_DIR = py_or detected_dir (expanduser w ''~/bootcamp-code/day3/bob''),
               REST_HOST = py_or detected_host ''https://localhost:8082''\<rparr>)"

text \<open>
  What \<^verbatim>\<open>open(path, "rb")\<close> followed by \<^verbatim>\<open>read\<close> gives for a path:
  \<^verbatim>\<open>FileNotFoundError\<close>, when the file or a directory on the way to it does not exist;
  \<^verbatim>\<open>NotADirectoryError\<close>, when a name on the way to it is a regular file, so that the
  file does not exist either; another \<^verbatim>\<open>OSError\<close> (no permission, the path is a
  directory); or the bytes of the file.
\<close>

datatype read_result = NotFound | NotADirectory | ReadFails | Contents "char list"

text \<open>\<^verbatim>\<open>bytes.hex\<close>: two lower-case digits for each byte.\<close>

definition hex_digit :: "nat \<Rightarrow> char" where
  "hex_digit d = ''0123456789abcdef'' ! d"

definition hex :: "char list \<Rightarrow> string" where
  "hex bs = concat (map (\<lambda>b. [hex_digit (of_char b div 16), hex_digit (of_char b mod 16)]) bs)"

record LNDClient =
  self_lnd_dir :: string
  self_rest_host :: string
  self_macaroon :: "string option"
  self_tls_cert :: string

text \<open>\<^verbatim>\<open>LNDClient.__init__\<close>: only \<^verbatim>\<open>FileNotFoundError\<close> is caught.\<close>

definition macaroon_path :: "string \<Rightarrow> string" where
  "macaroon_path dir = join dir [''data'', ''chain'', ''bitcoin'', ''regtest'', ''admin.macaroon'']"

definition LNDClient_init ::
  "module_constants \<Rightarrow> (string \<Rightarrow> read_result) \<Rightarrow> string option \<Rightarrow> string option \<Rightarrow> py_error + LNDClient" where
  "LNDClient_init m files dir host =
     (let d = py_or dir (LND_DIR m);
          h = py_or host (REST_HOST m)
      in case files (macaroon_path d) of
           NotFound \<Rightarrow>
             Inr \<lparr>self_lnd_dir = d, self_rest_host = h, self_macaroon = None,
                  self_tls_cert = join d [''tls.cert'']\<rparr>
         | NotADirectory \<Rightarrow> Inl NotADirectoryError
         | ReadFails \<Rightarrow> Inl OSError
         | Contents bs \<Rightarrow>
             Inr \<lparr>self_lnd_dir = d, self_rest_host = h, self_macaroon = Some (hex bs),
                  self_tls_cert = join d [''tls.cert'']\<rparr>)"

text \<open>
  The \<^verbatim>\<open>requests\<close> library and the node behind it: what a call of \<^verbatim>\<open>requests.get\<close>,
  \<^verbatim>\<open>requests.post\<close> or \<^verbatim>\<open>requests.delete\<close> answers (\<open>Inl\<close> when the call itself raises),
  what \<^verbatim>\<open>json.dumps\<close> writes and what \<^verbatim>\<open>resp.json()\<close> reads (\<open>None\<close> when the body is
  not JSON).
\<close>

record http_request =
  verb :: string
  req_url :: string
  headers :: "(string \<times> string) list"
  body :: "string option"
  verify :: bool

record transport =
  send :: "http_request \<Rightarrow> py_error + http_response"
  json_dumps :: "json \<Rightarrow> string"
  resp_json :: "http_response \<Rightarrow> json option"

text \<open>
  \<^verbatim>\<open>Response.raise_for_status\<close> of \<^verbatim>\<open>requests\<close>: a status from 400 to 599 raises
  \<^verbatim>\<open>HTTPError\<close> with a message that starts with the status code, and the error keeps
  the response.
\<close>

definition raise_for_status :: "http_response \<Rightarrow> py_error + unit" where
  "raise_for_status resp =
     (if 400 \<le> status_code resp \<and> status_code resp < 500
      then Inl (HTTPError (str_of_int (status_code resp) @ '' Client Error: '' @ reason resp
                             @ '' for url: '' @ url resp) resp)
      else if 500 \<le> status_code resp \<and> status_code resp < 600
      then Inl (HTTPError (str_of_int (status_code resp) @ '' Server Error: '' @ reason resp
                             @ '' for url: '' @ url resp) resp)
      else Inr ())"

text \<open>The message of the \<^verbatim>\<open>ConnectionError\<close> that \<^verbatim>\<open>_request\<close> raises without a macaroon.\<close>

definition not_found_message :: "string \<Rightarrow> string" where
  "not_found_message dir =
     ''LND not found at '' @ dir @ ''. '' @ ''Make sure your LND node is set up. ''
       @ ''If using Polar, make sure it'' @ [CHR 0x27] @ ''s running with a node named ''
       @ [CHR 0x27] @ ''bob'' @ [CHR 0x27] @ ''.''"

text \<open>The \<^verbatim>\<open>if\<close>/\<^verbatim>\<open>elif\<close> chain of \<^verbatim>\<open>_request\<close> on the method: the call it makes.\<close>

definition choose_call ::
  "transport \<Rightarrow> string \<Rightarrow> string \<Rightarrow> string \<Rightarrow> json \<Rightarrow> py_error + http_request" where
  "choose_call t macaroon method u data =
     (if method = ''GET''
      then Inr \<lparr>verb = ''GET'', req_url = u,
                headers = [(''Grpc-Metadata-macaroon'', macaroon)], body = None, verify = False\<rparr>
      else if method = ''POST''
      then Inr \<lparr>verb = ''POST'', req_url = u,
                headers = [(''Grpc-Metadata-macaroon'', macaroon),
                           (''Content-Type'', ''application/json'')],
                body = Some (json_dumps t data), verify = False\<rparr>
      else if method = ''DELETE''
      then Inr \<lparr>verb = ''DELETE'', req_url = u,
                headers = [(''Grpc-Metadata-macaroon'', macaroon)], body = None, verify = False\<rparr>
      else Inl (ValueError (''Unsupported method: '' @ method)))"

text \<open>
  \<^verbatim>\<open>LNDClient._request\<close>. The second component of the result lists the HTTP calls
  made, in order.
\<close>

definition LNDClient_request ::
  "LNDClient \<Rightarrow> transport \<Rightarrow> string \<Rightarrow> string \<Rightarrow> json \<Rightarrow> (py_error + json) \<times> http_request list" where
  "LNDClient_request self t method endpoint data =
     (if \<not> str_truthy (self_macaroon self)
      then (Inl (ConnectionError (not_found_message (self_lnd_dir self))), [])
      else
        (case choose_call t (case self_macaroon self of None \<Rightarrow> [] | Some m \<Rightarrow> m) method
                (self_rest_host self @ endpoint) data of
           Inl e \<Rightarrow> (Inl e, [])
         | Inr req \<Rightarrow>
             (case send t req of
                Inl e \<Rightarrow> (Inl e, [req])
              | Inr resp \<Rightarrow>
                  (case raise_for_status resp of
                     Inl e \<Rightarrow> (Inl e, [req])
                   | Inr u \<Rightarrow>
                       (case resp_json t resp of
                          None \<Rightarrow> (Inl JSONDecodeError, [req])
                        | Some j \<Rightarrow> (Inr j, [req]))))))"

text \<open>The endpoint methods: each binds a method, a path and a body onto \<^verbatim>\<open>_request\<close>.\<close>

definition get_info :: "LNDClient \<Rightarrow> transport \<Rightarrow> (py_error + json) \<times> http_request list" where
  "get_info self t = LNDClient_request self t ''GET'' ''/v1/getinfo'' JNull"

definition channel_balance :: "LNDClient \<Rightarrow> transport \<Rightarrow> (py_error + json) \<times> http_request list" where
  "channel_balance self t = LNDClient_request self t ''GET'' ''/v1/balance/channels'' JNull"

definition wallet_balance :: "LNDClient \<Rightarrow> transport \<Rightarrow> (py_error + json) \<times> http_request list" where
  "wallet_balance self t = LNDClient_request self t ''GET'' ''/v1/balance/blockchain'' JNull"

definition add_invoice ::
  "LNDClient \<Rightarrow> transport \<Rightarrow> int \<Rightarrow> string \<Rightarrow> (py_error + json) \<times> http_request list" where
  "add_invoice self t amount memo =
     LNDClient_request self t ''POST'' ''/v1/invoices''
       (JObj [(''value'', JStr (str_of_int amount)), (''memo'', JStr memo)])"

definition lookup_invoice ::
  "LNDClient \<Rightarrow> transport \<Rightarrow> string \<Rightarrow> (py_error + json) \<times> http_request list" where
  "lookup_invoice self t r_hash_str = LNDClient_request self t ''GET'' (''/v1/invoice/'' @ r_hash_str) JNull"

definition list_invoices :: "LNDClient \<Rightarrow> transport \<Rightarrow> (py_error + json) \<times> http_request list" where
  "list_invoices self t = LNDClient_request self t ''GET'' ''/v1/invoices'' JNull"

definition list_payments :: "LNDClient \<Rightarrow> transport \<Rightarrow> (py_error + json) \<times> http_request list" where
  "list_payments self t = LNDClient_request self t ''GET'' ''/v1/payments'' JNull"

definition decode_pay_req ::
  "LNDClient \<Rightarrow> transport \<Rightarrow> string \<Rightarrow> (py_error + json) \<times> http_request list" where
  "decode_pay_req self t pay_req = LNDClient_request self t ''GET'' (''/v1/payreq/'' @ pay_req) JNull"

definition list_channels :: "LNDClient \<Rightarrow> transport \<Rightarrow> (py_error + json) \<times> http_request list" where
  "list_channels self t = LNDClient_request self t ''GET'' ''/v1/channels'' JNull"

definition list_peers :: "LNDClient \<Rightarrow> transport \<Rightarrow> (py_error + json) \<times> http_request list" where
  "list_peers self t = LNDClient_request self t ''GET'' ''/v1/peers'' JNull"

section \<open>Example inputs\<close>

text \<open>
  A world for the examples: \<^verbatim>\<open>expanduser\<close> puts \<^verbatim>\<open>/home/dev\<close> in place of a leading
  \<^verbatim>\<open>~\<close> that a slash follows, the environment and the descriptor file are given.
\<close>

definition example_world :: "(string \<rightharpoonup> string) \<Rightarrow> file_state \<Rightarrow> world" where
  "example_world env f =
     \<lparr>environ = env,
      expanduser = (\<lambda>p. if take 2 p = ''~/'' then ''/home/dev'' @ drop 1 p else p),
      networks_file = f,
      int_of_str = (\<lambda>s. None),
      repr = (\<lambda>v. [])\<rparr>"

text \<open>A lightning-node entry with an implementation, a name and a REST port.\<close>

definition example_node :: "string \<Rightarrow> string \<Rightarrow> int \<Rightarrow> json" where
  "example_node impl nm port =
     JObj [(''implementation'', JStr impl), (''name'', JStr nm),
           (''ports'', JObj [(''rest'', JInt port)])]"

text \<open>A network with an identifier, a status, a path and lightning-node entries.\<close>

definition example_network :: "int \<Rightarrow> string \<Rightarrow> string \<Rightarrow> json list \<Rightarrow> json" where
  "example_network i st p nodes =
     JObj [(''id'', JInt i), (''name'', JStr ''net''), (''status'', JStr st), (''path'', JStr p),
           (''nodes'', JObj [(''lightning'', JArr nodes)])]"

definition example_descriptor :: "json list \<Rightarrow> file_state" where
  "example_descriptor nets = Parsed (JObj [(''networks'', JArr nets)])"

section \<open>The shape of a descriptor\<close>











section \<open>Properties of the helpers\<close>

lemma join2_nonempty: "b \<noteq> [] \<Longrightarrow> join2 p b \<noteq> []"
  by (simp add: join2_def)



lemma join_volumes_nonempty: "join base [''volumes'', ''lnd'', nm] \<noteq> []"
  by (auto simp: join_def join2_def)

lemma build_node_result:
  assumes "build_node w network node nm = Inr r"
  shows "name r = nm"
    and "\<exists>base. lnd_dir r = join base [''volumes'', ''lnd'', nm]"
    and "rest_host r = ''https://127.0.0.1:'' @ py_str w (rest_port r)"
  using assms
  by (auto simp: build_node_def split: sum.splits if_splits json.splits elim!: py_join.elims)

lemma scan_nodes_Some:
  assumes "scan_nodes w node_name network ns = Inr (Some r)"
  shows "\<exists>pre node post. ns = pre @ node # post \<and> (\<forall>x\<in>set pre. \<not> node_matches node_name x)
           \<and> node_matches node_name node
           \<and> py_get node ''name'' (JStr []) = Inr (JStr (name r))
           \<and> build_node w network node (name r) = Inr r"
  using assms
proof (induction ns)
  case Nil
  then show ?case by simp
next
  case (Cons node rest)
  show ?case
  proof (cases "node_matches node_name node")
    case True
    then obtain i n where f: "py_get node ''implementation'' (JStr []) = Inr (JStr i)" "upper i = ''LND''"
        "py_get node ''name'' (JStr []) = Inr (JStr n)" "lower n = lower node_name"
      by (auto simp: node_matches_def split: sum.splits elim!: str_method.elims)
    with Cons.prems have b: "build_node w network node n = Inr r"
      by (simp split: sum.splits)
    then have "name r = n" by (rule build_node_result(1))
    with f b True have "node # rest = [] @ node # rest \<and> (\<forall>x\<in>set []. \<not> node_matches node_name x)
           \<and> node_matches node_name node
           \<and> py_get node ''name'' (JStr []) = Inr (JStr (name r))
           \<and> build_node w network node (name r) = Inr r" by simp
    then show ?thesis by blast
  next
    case False
    with Cons.prems have "scan_nodes w node_name network rest = Inr (Some r)"
      by (auto simp: node_matches_def split: sum.splits if_splits)
    from Cons.IH [OF this] obtain pre nd post where
      "rest = pre @ nd # post" "\<forall>x\<in>set pre. \<not> node_matches node_name x"
      "node_matches node_name nd" "py_get nd ''name'' (JStr []) = Inr (JStr (name r))"
      "build_node w network nd (name r) = Inr r" by blast
    with False have "node # rest = (node # pre) @ nd # post \<and> (\<forall>x\<in>set (node # pre). \<not> node_matches node_name x)
           \<and> node_matches node_name nd
           \<and> py_get nd ''name'' (JStr []) = Inr (JStr (name r))
           \<and> build_node w network nd (name r) = Inr r" by simp
    then show ?thesis by blast
  qed
qed

lemma scan_nodes_None:
  assumes "scan_nodes w node_name network ns = Inr None"
  shows "\<forall>x\<in>set ns. \<not> node_matches node_name x"
  using assms
proof (induction ns)
  case Nil
  then show ?case by simp
next
  case (Cons node rest)
  from Cons.prems have "\<not> node_matches node_name node \<and> scan_nodes w node_name network rest = Inr None"
    by (auto simp: node_matches_def split: sum.splits if_splits)
  with Cons.IH show ?case by simp
qed

lemma scan_networks_Some:
  assumes "scan_networks w node_name nets = Inr (Some r)"
  shows "\<exists>before network after pre node post.
           nets = before @ network # after
           \<and> (\<forall>n\<in>set before. \<exists>ns. lightning_nodes n = Some ns \<and> (\<forall>x\<in>set ns. \<not> node_matches node_name x))
           \<and> lightning_nodes network = Some (pre @ node # post)
           \<and> (\<forall>x\<in>set pre. \<not> node_matches node_name x)
           \<and> node_matches node_name node
           \<and> py_get node ''name'' (JStr []) = Inr (JStr (name r))
           \<and> build_node w network node (name r) = Inr r"
  using assms
proof (induction nets)
  case Nil
  then show ?case by simp
next
  case (Cons network rest)
  from Cons.prems obtain ns where ln: "lightning_nodes network = Some ns"
    by (auto simp: lightning_nodes_def split: sum.splits)
  with Cons.prems have step: "scan_nodes w node_name network ns = Inr (Some r)
      \<or> (scan_nodes w node_name network ns = Inr None \<and> scan_networks w node_name rest = Inr (Some r))"
    by (auto simp: lightning_nodes_def split: sum.splits option.splits)
  then show ?case
  proof
    assume "scan_nodes w node_name network ns = Inr (Some r)"
    from scan_nodes_Some [OF this] obtain pre node post where
      "ns = pre @ node # post" "\<forall>x\<in>set pre. \<not> node_matches node_name x"
      "node_matches node_name node" "py_get node ''name'' (JStr []) = Inr (JStr (name r))"
      "build_node w network node (name r) = Inr r" by blast
    with ln have "network # rest = [] @ network # rest
           \<and> (\<forall>n\<in>set []. \<exists>ns. lightning_nodes n = Some ns \<and> (\<forall>x\<in>set ns. \<not> node_matches node_name x))
           \<and> lightning_nodes network = Some (pre @ node # post)
           \<and> (\<forall>x\<in>set pre. \<not> node_matches node_name x)
           \<and> node_matches node_name node
           \<and> py_get node ''name'' (JStr []) = Inr (JStr (name r))
           \<and> build_node w network node (name r) = Inr r" by simp
    then show ?thesis by blast
  next
    assume a: "scan_nodes w node_name network ns = Inr None \<and> scan_networks w node_name rest = Inr (Some r)"
    then have none: "\<forall>x\<in>set ns. \<not> node_matches node_name x"
      using scan_nodes_None by blast
    from a Cons.IH obtain before net after pre node post where h:
      "rest = before @ net # after"
      "\<forall>n\<in>set before. \<exists>ns. lightning_nodes n = Some ns \<and> (\<forall>x\<in>set ns. \<not> node_matches node_name x)"
      "lightning_nodes net = Some (pre @ node # post)"
      "\<forall>x\<in>set pre. \<not> node_matches node_name x"
      "node_matches node_name node" "py_get node ''name'' (JStr []) = Inr (JStr (name r))"
      "build_node w net node (name r) = Inr r" by blast
    from h(2) ln none have "\<forall>n\<in>set (network # before). \<exists>ns. lightning_nodes n = Some ns \<and> (\<forall>x\<in>set ns. \<not> node_matches node_name x)"
      by simp
    with h have "network # rest = (network # before) @ net # after
           \<and> (\<forall>n\<in>set (network # before). \<exists>ns. lightning_nodes n = Some ns \<and> (\<forall>x\<in>set ns. \<not> node_matches node_name x))
           \<and> lightning_nodes net = Some (pre @ node # post)
           \<and> (\<forall>x\<in>set pre. \<not> node_matches node_name x)
           \<and> node_matches node_name node
           \<and> py_get node ''name'' (JStr []) = Inr (JStr (name r))
           \<and> build_node w net node (name r) = Inr r" by simp
    then show ?thesis by blast
  qed
qed

lemma find_polar_node_no_networks:
  assumes "networks_file w = Parsed data" and "py_get data ''networks'' (JArr []) = Inr nets"
    and "\<not> truthy nets"
  shows "find_polar_node w node_name = Inr None"
  using assms by (simp add: find_polar_node_def)

lemma find_polar_node_no_file:
  assumes "networks_file w = Missing \<or> networks_file w = Unreadable \<or> networks_file w = NotJSON"
  shows "find_polar_node w node_name = Inr None"
  using assms by (auto simp: find_polar_node_def)

lemma auto_detect_falls_through:
  assumes "\<not> (str_truthy (environ w ''LND_DIR'') \<and> str_truthy (environ w ''REST_HOST''))"
  shows "auto_detect w node_name =
           (case find_polar_node w node_name of
              Inl e \<Rightarrow> Inl e
            | Inr None \<Rightarrow> Inr (None, None)
            | Inr (Some polar) \<Rightarrow> Inr (Some (lnd_dir polar), Some (rest_host polar)))"
  using assms by (auto simp: auto_detect_def Let_def)

lemma auto_detect_override:
  assumes "environ w ''LND_DIR'' = Some d" and "d \<noteq> []"
    and "environ w ''REST_HOST'' = Some h" and "h \<noteq> []"
  shows "auto_detect w node_name = Inr (Some (expanduser w d), Some h)"
  using assms by (simp add: auto_detect_def str_truthy_def)

lemmas example_defs = example_world_def example_descriptor_def example_network_def example_node_def

lemmas scan_defs = find_polar_node_def sorted_reverse_def sort_key_net_def build_node_def
  upper_def upper_char_def lower_def lower_char_def join_def join2_def

lemma str_of_int_8083: "str_of_int 8083 = ''8083''"
  by (simp add: str_of_int_def str_of_nat.simps[of 8083] str_of_nat.simps[of 808] str_of_nat.simps[of 80] str_of_nat.simps[of 8] digit_char_def)

lemma example_one_network:
  "find_polar_node (example_world env (example_descriptor
       [example_network 1 ''Started'' ''/n/1'' [example_node ''LND'' ''bob'' 8083]])) ''bob''
   = Inr (Some \<lparr>name = ''bob'', lnd_dir = ''/n/1/volumes/lnd/bob'',
                 rest_host = ''https://127.0.0.1:8083'', rest_port = JInt 8083,
                 network_name = JStr ''net''\<rparr>)"
  by (simp add: example_defs scan_defs str_of_int_8083)

lemma find_polar_node_Some:
  assumes "find_polar_node w node_name = Inr (Some r)"
  shows "\<exists>data networks ss. networks_file w = Parsed data
           \<and> py_get data ''networks'' (JArr []) = Inr networks \<and> truthy networks
           \<and> sorted_reverse w networks = Inr ss
           \<and> scan_networks w node_name ss = Inr (Some r)"
  using assms
  by (auto simp: find_polar_node_def split: file_state.splits sum.splits if_splits)

lemma find_polar_node_nonempty:
  assumes "find_polar_node w node_name = Inr (Some r)"
  shows "lnd_dir r \<noteq> [] \<and> rest_host r \<noteq> []"
proof -
  from find_polar_node_Some [OF assms] obtain ss where "scan_networks w node_name ss = Inr (Some r)"
    by blast
  from scan_networks_Some [OF this] obtain network node where b: "build_node w network node (name r) = Inr r"
    by blast
  from build_node_result(2) [OF b] obtain base where "lnd_dir r = join base [''volumes'', ''lnd'', name r]"
    by blast
  then have "lnd_dir r \<noteq> []"
    by (simp add: join_volumes_nonempty)
  moreover from build_node_result(3) [OF b] have "rest_host r \<noteq> []"
    by simp
  ultimately show ?thesis by simp
qed

lemma str_of_int_8084: "str_of_int 8084 = ''8084''"
  by (simp add: str_of_int_def str_of_nat.simps[of 8084] str_of_nat.simps[of 808] str_of_nat.simps[of 80] str_of_nat.simps[of 8] digit_char_def)

lemma example_two_networks:
  "find_polar_node (example_world env (example_descriptor
       [example_network 7 ''Stopped'' ''/n/7'' [example_node ''LND'' ''bob'' 8083],
        example_network 2 ''Started'' ''/n/2''
          [example_node ''c-lightning'' ''bob'' 8083, example_node ''lnd'' ''Bob'' 8084]])) ''BOB''
   = Inr (Some \<lparr>name = ''Bob'', lnd_dir = ''/n/2/volumes/lnd/Bob'',
                 rest_host = ''https://127.0.0.1:8084'', rest_port = JInt 8084,
                 network_name = JStr ''net''\<rparr>)"
  by (simp add: example_defs scan_defs str_of_int_8084)


lemma sort_keys_zip:
  assumes "sort_keys w nets = Inr ks"
  shows "length ks = length nets \<and> (\<forall>p\<in>set (zip ks nets). sort_key_net w (snd p) = Inr (fst p))"
  using assms
proof (induction nets arbitrary: ks)
  case Nil
  then show ?case by simp
next
  case (Cons net nets)
  from Cons.prems obtain k ks' where k: "sort_key_net w net = Inr k" "sort_keys w nets = Inr ks'" "ks = k # ks'"
    by (auto split: sum.splits)
  with Cons.IH [of ks'] show ?case by auto
qed

lemma sort_key_net_started:
  assumes "sort_key_net w net = Inr (a, i)"
  shows "a = (if started net then 1 else 0)"
  using assms by (auto simp: sort_key_net_def started_def Let_def split: sum.splits if_splits)

lemma sorted_reverse_JArr:
  assumes "sorted_reverse w networks = Inr ss"
  shows "\<exists>nets ks. py_iter networks = Inr nets \<and> sort_keys w nets = Inr ks
           \<and> ss = map snd (rev (sort_key fst (rev (zip ks nets))))"
  using assms by (auto simp: sorted_reverse_def split: sum.splits)

lemma sorted_reverse_order:
  assumes "sorted_reverse w networks = Inr ss" and "i < j" and "j < length ss"
  shows "\<exists>ki kj. sort_key_net w (ss ! i) = Inr ki \<and> sort_key_net w (ss ! j) = Inr kj \<and> kj \<le> ki"
proof -
  from sorted_reverse_JArr [OF assms(1)] obtain nets ks where
    k: "sort_keys w nets = Inr ks" and ss: "ss = map snd (rev (sort_key fst (rev (zip ks nets))))"
    by blast
  define ps where "ps = sort_key fst (rev (zip ks nets))"
  have srt: "sorted (map fst ps)"
    by (simp add: ps_def)
  have mem: "\<forall>p\<in>set ps. sort_key_net w (snd p) = Inr (fst p)"
    using sort_keys_zip [OF k] by (simp add: ps_def)
  have len: "length ss = length ps"
    by (simp add: ss ps_def)
  have ssi: "ss ! n = snd (ps ! (length ps - Suc n))" if "n < length ps" for n
    using that by (simp add: ss ps_def [symmetric] rev_nth)
  let ?i = "length ps - Suc i" and ?j = "length ps - Suc j"
  from assms(2,3) len have lt: "?j < ?i" "?i < length ps" by auto
  then have "fst (ps ! ?j) \<le> fst (ps ! ?i)"
    using srt by (metis length_map less_imp_le_nat nth_map order_less_trans sorted_nth_mono)
  moreover have "sort_key_net w (snd (ps ! ?i)) = Inr (fst (ps ! ?i))"
    using mem lt by simp
  moreover have "sort_key_net w (snd (ps ! ?j)) = Inr (fst (ps ! ?j))"
    using mem lt by simp
  ultimately show ?thesis
    using ssi assms(2,3) len by auto
qed

lemma sorted_reverse_mset:
  assumes "sorted_reverse w (JArr nets) = Inr ss"
  shows "mset ss = mset nets"
proof -
  from sorted_reverse_JArr [OF assms] obtain ks where
    k: "sort_keys w nets = Inr ks" and ss: "ss = map snd (rev (sort_key fst (rev (zip ks nets))))"
    by auto
  from sort_keys_zip [OF k] have "length ks = length nets" by simp
  then have "map snd (zip ks nets) = nets" by simp
  moreover have "mset ss = mset (map snd (zip ks nets))"
    unfolding ss by simp
  ultimately show ?thesis by simp
qed

lemma sorted_reverse_two:
  assumes "sort_key_net w a = Inr ka" and "sort_key_net w b = Inr kb" and "kb < ka"
  shows "sorted_reverse w (JArr [a, b]) = Inr [a, b]" and "sorted_reverse w (JArr [b, a]) = Inr [a, b]"
  using assms by (auto simp: sorted_reverse_def)

lemma scan_networks_head:
  assumes "scan_networks w node_name [a] = Inr (Some r)"
  shows "scan_networks w node_name (a # rest) = Inr (Some r)"
  using assms by (auto split: sum.splits option.splits)

lemma find_polar_node_scan:
  assumes "networks_file w = Parsed data" and "py_get data ''networks'' (JArr []) = Inr networks"
    and "truthy networks" and "sorted_reverse w networks = Inr ss"
  shows "find_polar_node w node_name = scan_networks w node_name ss"
  using assms by (simp add: find_polar_node_def)

lemma request_without_macaroon:
  assumes "self_macaroon self = None \<or> self_macaroon self = Some []"
  shows "LNDClient_request self t method endpoint data =
           (Inl (ConnectionError (not_found_message (self_lnd_dir self))), [])"
  using assms by (auto simp: LNDClient_request_def str_truthy_def)

lemma not_found_message_names_dir: "sublist dir (not_found_message dir)"
  unfolding not_found_message_def sublist_def by blast

lemma str_of_int_503: "str_of_int 503 = ''503''"
  by (simp add: str_of_int_def str_of_nat.simps[of 503] str_of_nat.simps[of 50] str_of_nat.simps[of 5] digit_char_def)

lemma raise_for_status_error:
  assumes "400 \<le> status_code resp" and "status_code resp < 600"
  shows "\<exists>msg. raise_for_status resp = Inl (HTTPError msg resp) \<and> prefix (str_of_int (status_code resp)) msg"
  using assms by (auto simp: raise_for_status_def)

lemma scan_nodes_skip:
  assumes "scan_nodes w node_name network pre = Inr None"
  shows "scan_nodes w node_name network (pre @ rest) = scan_nodes w node_name network rest"
  using assms
proof (induction pre)
  case Nil
  then show ?case by simp
next
  case (Cons node pre)
  from Cons.prems have "scan_nodes w node_name network pre = Inr None"
    by (auto split: sum.splits if_splits)
  with Cons.IH Cons.prems show ?case
    by (auto split: sum.splits if_splits)
qed

lemma sorted_reverse_single:
  assumes "sort_key_net w network = Inr k"
  shows "sorted_reverse w (JArr [network]) = Inr [network]"
  using assms by (simp add: sorted_reverse_def)

lemma join_plain:
  assumes "base \<noteq> []" and "last base \<noteq> CHR ''/''" and "nm = [] \<or> hd nm \<noteq> CHR ''/''"
  shows "join base [''volumes'', ''lnd'', nm] = base @ ''/volumes/lnd/'' @ nm"
  using assms by (auto simp: join_def join2_def)

lemma join_relative_name:
  assumes "nm = [] \<or> hd nm \<noteq> CHR ''/''"
  shows "join base [''volumes'', ''lnd'', nm] =
           base @ (if base = [] \<or> last base = CHR ''/'' then [] else ''/'') @ ''volumes/lnd/'' @ nm"
  using assms by (auto simp: join_def join2_def)

lemma join_absolute_name:
  assumes "nm \<noteq> []" and "hd nm = CHR ''/''"
  shows "join base [''volumes'', ''lnd'', nm] = nm"
  using assms by (simp add: join_def join2_def)







lemma upper_char_cases:
  "upper_char c = CHR ''L'' \<longleftrightarrow> c = CHR ''l'' \<or> c = CHR ''L''"
  "upper_char c = CHR ''N'' \<longleftrightarrow> c = CHR ''n'' \<or> c = CHR ''N''"
  "upper_char c = CHR ''D'' \<longleftrightarrow> c = CHR ''d'' \<or> c = CHR ''D''"
  by (auto simp: upper_char_def split: if_splits)

lemma lower_char_cases:
  "lower_char c = CHR ''l'' \<longleftrightarrow> c = CHR ''l'' \<or> c = CHR ''L''"
  "lower_char c = CHR ''n'' \<longleftrightarrow> c = CHR ''n'' \<or> c = CHR ''N''"
  "lower_char c = CHR ''d'' \<longleftrightarrow> c = CHR ''d'' \<or> c = CHR ''D''"
  by (auto simp: lower_char_def split: if_splits)

lemma upper_LND_iff_lower: "upper i = ''LND'' \<longleftrightarrow> lower i = ''lnd''"
  by (simp add: upper_def lower_def map_eq_Cons_conv upper_char_cases lower_char_cases)



lemma sorted_reverse_equal_keys:
  assumes "sort_key_net w a = Inr k" and "sort_key_net w b = Inr k"
  shows "sorted_reverse w (JArr [a, b]) = Inr [a, b]"
  using assms by (simp add: sorted_reverse_def)

section \<open>The claims\<close>

subsection \<open>C3: no descriptor, no result\<close>

text \<open>
  Claim C3, as the specification states it: whenever the descriptor file is missing, or
  its content fails to parse as JSON, or it parses but contains zero networks, and no
  full override is present, resolution returns \<^verbatim>\<open>(None, None)\<close>. A file that holds the
  JSON value \<^verbatim>\<open>null\<close> parses and contains no network, and \<^verbatim>\<open>data.get\<close> raises
  \<^verbatim>\<open>AttributeError\<close> on it, which \<^verbatim>\<open>auto_detect\<close> passes on.
\<close>

theorem zero_networks_counterexample:
  "auto_detect (example_world Map.empty (Parsed JNull)) ''bob'' = Inl AttributeError"
  by (simp add: auto_detect_def str_truthy_def find_polar_node_def example_world_def)

text \<open>
  Claim C3, amended. When no full environment override is present and the descriptor file
  is missing, or \<^verbatim>\<open>json.load\<close> raises \<^verbatim>\<open>JSONDecodeError\<close> on its content, or it parses to
  a dict whose \<^verbatim>\<open>networks\<close> member is absent or is a value that counts as false (an empty
  list, \<^verbatim>\<open>null\<close>), \<^verbatim>\<open>auto_detect\<close> returns the pair \<^verbatim>\<open>(None, None)\<close>.
\<close>

theorem absent_when_no_descriptor:
  assumes "\<not> (str_truthy (environ w ''LND_DIR'') \<and> str_truthy (environ w ''REST_HOST''))"
    and "networks_file w = Missing \<or> networks_file w = NotJSON
         \<or> (\<exists>data nets. networks_file w = Parsed data
               \<and> py_get data ''networks'' (JArr []) = Inr nets \<and> \<not> truthy nets)"
  shows "auto_detect w node_name = Inr (None, None)"
proof -
  have "find_polar_node w node_name = Inr None"
    using assms(2)
  proof (elim disjE exE conjE)
    fix data nets
    assume "networks_file w = Parsed data" "py_get data ''networks'' (JArr []) = Inr nets"
      "\<not> truthy nets"
    then show ?thesis by (rule find_polar_node_no_networks)
  qed (simp_all add: find_polar_node_no_file)
  then show ?thesis
    using assms(1) by (simp add: auto_detect_falls_through)
qed

theorem absent_when_no_descriptor_witness:
  "auto_detect (example_world Map.empty (example_descriptor [])) ''bob'' = Inr (None, None)
   \<and> auto_detect (example_world Map.empty (Parsed (JObj [(''networks'', JNull)]))) ''bob'' = Inr (None, None)
   \<and> auto_detect (example_world Map.empty (Parsed (JObj [(''version'', JStr ''1'')]))) ''bob'' = Inr (None, None)
   \<and> auto_detect (example_world Map.empty NotJSON) ''bob'' = Inr (None, None)
   \<and> auto_detect (example_world Map.empty Missing) ''bob'' = Inr (None, None)"
proof -
  have e: "\<not> (str_truthy (environ (example_world Map.empty f) ''LND_DIR'')
       \<and> str_truthy (environ (example_world Map.empty f) ''REST_HOST''))" for f
    by (simp add: example_world_def str_truthy_def)
  have h: "networks_file (example_world Map.empty (Parsed (JObj kvs))) = Missing
      \<or> networks_file (example_world Map.empty (Parsed (JObj kvs))) = NotJSON
      \<or> (\<exists>data nets. networks_file (example_world Map.empty (Parsed (JObj kvs))) = Parsed data
            \<and> py_get data ''networks'' (JArr []) = Inr nets \<and> \<not> truthy nets)"
    if "\<not> truthy (case map_of (rev kvs) ''networks'' of None \<Rightarrow> JArr [] | Some v \<Rightarrow> v)" for kvs
    using that by (simp add: example_world_def)
  have h1: "\<not> truthy (case map_of (rev [(''networks'', JArr [])]) ''networks'' of
                      None \<Rightarrow> JArr [] | Some v \<Rightarrow> v)"
    and h2: "\<not> truthy (case map_of (rev [(''networks'', JNull)]) ''networks'' of
                      None \<Rightarrow> JArr [] | Some v \<Rightarrow> v)"
    and h3: "\<not> truthy (case map_of (rev [(''version'', JStr ''1'')]) ''networks'' of
                      None \<Rightarrow> JArr [] | Some v \<Rightarrow> v)"
    by simp_all
  have h4: "networks_file (example_world Map.empty NotJSON) = Missing
      \<or> networks_file (example_world Map.empty NotJSON) = NotJSON
      \<or> (\<exists>data nets. networks_file (example_world Map.empty NotJSON) = Parsed data
            \<and> py_get data ''networks'' (JArr []) = Inr nets \<and> \<not> truthy nets)"
    and h5: "networks_file (example_world Map.empty Missing) = Missing
      \<or> networks_file (example_world Map.empty Missing) = NotJSON
      \<or> (\<exists>data nets. networks_file (example_world Map.empty Missing) = Parsed data
            \<and> py_get data ''networks'' (JArr []) = Inr nets \<and> \<not> truthy nets)"
    by (simp_all add: example_world_def)
  show ?thesis
    using absent_when_no_descriptor [OF e h [OF h1], of "''bob''"]
      absent_when_no_descriptor [OF e h [OF h2], of "''bob''"]
      absent_when_no_descriptor [OF e h [OF h3], of "''bob''"]
      absent_when_no_descriptor [OF e h4, of "''bob''"]
      absent_when_no_descriptor [OF e h5, of "''bob''"]
    by (simp add: example_descriptor_def)
qed

subsection \<open>C2: the environment override is a pair\<close>

text \<open>
  Claim C2. When \<^verbatim>\<open>LND_DIR\<close> and \<^verbatim>\<open>REST_HOST\<close> are both set and not empty,
  \<^verbatim>\<open>auto_detect\<close> returns the expanded directory and the host as given, whatever the
  state of the descriptor file is (so the file is not consulted, also when it would
  match or would raise). When one of the two is not set, the result is the one of the
  descriptor-based detection.
\<close>

theorem override_pair:
  "(environ w ''LND_DIR'' = Some d \<and> d \<noteq> [] \<and> environ w ''REST_HOST'' = Some h \<and> h \<noteq> []
      \<longrightarrow> (\<forall>f. auto_detect (w\<lparr>networks_file := f\<rparr>) node_name = Inr (Some (expanduser w d), Some h)))
   \<and> (environ w ''LND_DIR'' = None \<or> environ w ''REST_HOST'' = None
      \<longrightarrow> auto_detect w node_name =
            (case find_polar_node w node_name of
               Inl e \<Rightarrow> Inl e
             | Inr None \<Rightarrow> Inr (None, None)
             | Inr (Some polar) \<Rightarrow> Inr (Some (lnd_dir polar), Some (rest_host polar))))"
proof (intro conjI impI allI)
  fix f
  assume a: "environ w ''LND_DIR'' = Some d \<and> d \<noteq> [] \<and> environ w ''REST_HOST'' = Some h \<and> h \<noteq> []"
  show "auto_detect (w\<lparr>networks_file := f\<rparr>) node_name = Inr (Some (expanduser w d), Some h)"
    using a auto_detect_override [of "w\<lparr>networks_file := f\<rparr>" d h node_name] by simp
next
  assume "environ w ''LND_DIR'' = None \<or> environ w ''REST_HOST'' = None"
  then have "\<not> (str_truthy (environ w ''LND_DIR'') \<and> str_truthy (environ w ''REST_HOST''))"
    by (auto simp: str_truthy_def)
  then show "auto_detect w node_name =
            (case find_polar_node w node_name of
               Inl e \<Rightarrow> Inl e
             | Inr None \<Rightarrow> Inr (None, None)
             | Inr (Some polar) \<Rightarrow> Inr (Some (lnd_dir polar), Some (rest_host polar)))"
    by (rule auto_detect_falls_through)
qed

theorem override_pair_witness:
  "auto_detect (example_world [''LND_DIR'' \<mapsto> ''~/lnd'', ''REST_HOST'' \<mapsto> ''https://10.0.0.1:9000'']
       (example_descriptor [example_network 1 ''Started'' ''/n/1'' [example_node ''LND'' ''bob'' 8083]]))
       ''bob''
     = Inr (Some ''/home/dev/lnd'', Some ''https://10.0.0.1:9000'')
   \<and> auto_detect (example_world [''LND_DIR'' \<mapsto> ''~/lnd'', ''REST_HOST'' \<mapsto> ''https://10.0.0.1:9000''] Undecodable)
       ''bob''
     = Inr (Some ''/home/dev/lnd'', Some ''https://10.0.0.1:9000'')
   \<and> auto_detect (example_world [''LND_DIR'' \<mapsto> ''~/lnd'']
       (example_descriptor [example_network 1 ''Started'' ''/n/1'' [example_node ''LND'' ''bob'' 8083]]))
       ''bob''
     = Inr (Some ''/n/1/volumes/lnd/bob'', Some ''https://127.0.0.1:8083'')"
proof -
  let ?env = "[''LND_DIR'' \<mapsto> ''~/lnd'', ''REST_HOST'' \<mapsto> ''https://10.0.0.1:9000'']"
  let ?file = "example_descriptor [example_network 1 ''Started'' ''/n/1'' [example_node ''LND'' ''bob'' 8083]]"
  have a: "auto_detect (example_world ?env ?file) ''bob'' = Inr (Some ''/home/dev/lnd'', Some ''https://10.0.0.1:9000'')"
    using override_pair [of "example_world ?env Missing" "''~/lnd''" "''https://10.0.0.1:9000''" "''bob''"]
    by (simp add: example_world_def)
  have b: "auto_detect (example_world ?env Undecodable) ''bob'' = Inr (Some ''/home/dev/lnd'', Some ''https://10.0.0.1:9000'')"
    using override_pair [of "example_world ?env Missing" "''~/lnd''" "''https://10.0.0.1:9000''" "''bob''"]
    by (simp add: example_world_def)
  have c: "auto_detect (example_world [''LND_DIR'' \<mapsto> ''~/lnd''] ?file) ''bob''
     = Inr (Some ''/n/1/volumes/lnd/bob'', Some ''https://127.0.0.1:8083'')"
    using override_pair [of "example_world [''LND_DIR'' \<mapsto> ''~/lnd''] ?file" "[]" "[]" "''bob''"]
    by (simp add: example_one_network) (simp add: example_world_def)
  from a b c show ?thesis by simp
qed

subsection \<open>C9: an empty override is no override\<close>

text \<open>
  Claim C9. When \<^verbatim>\<open>LND_DIR\<close> or \<^verbatim>\<open>REST_HOST\<close> is set to the empty string, the pair is
  not honoured: the result is the one of the descriptor-based detection, and no
  component of a returned pair is the empty string.
\<close>

theorem empty_override_is_unset:
  assumes "environ w ''LND_DIR'' = Some [] \<or> environ w ''REST_HOST'' = Some []"
  shows "auto_detect w node_name =
           (case find_polar_node w node_name of
              Inl e \<Rightarrow> Inl e
            | Inr None \<Rightarrow> Inr (None, None)
            | Inr (Some polar) \<Rightarrow> Inr (Some (lnd_dir polar), Some (rest_host polar)))
         \<and> (\<forall>a b. auto_detect w node_name = Inr (a, b) \<longrightarrow> a \<noteq> Some [] \<and> b \<noteq> Some [])"
proof -
  from assms have "\<not> (str_truthy (environ w ''LND_DIR'') \<and> str_truthy (environ w ''REST_HOST''))"
    by (auto simp: str_truthy_def)
  then have eq: "auto_detect w node_name =
           (case find_polar_node w node_name of
              Inl e \<Rightarrow> Inl e
            | Inr None \<Rightarrow> Inr (None, None)
            | Inr (Some polar) \<Rightarrow> Inr (Some (lnd_dir polar), Some (rest_host polar)))"
    by (rule auto_detect_falls_through)
  have "a \<noteq> Some [] \<and> b \<noteq> Some []" if "auto_detect w node_name = Inr (a, b)" for a b
    using that eq find_polar_node_nonempty [of w node_name]
    by (auto split: sum.splits option.splits)
  with eq show ?thesis by blast
qed

theorem empty_override_is_unset_witness:
  "environ (example_world [''LND_DIR'' \<mapsto> [], ''REST_HOST'' \<mapsto> ''https://10.0.0.1:9000'']
       (example_descriptor [example_network 1 ''Started'' ''/n/1'' [example_node ''LND'' ''bob'' 8083]]))
     ''LND_DIR'' = Some []
   \<and> auto_detect (example_world [''LND_DIR'' \<mapsto> [], ''REST_HOST'' \<mapsto> ''https://10.0.0.1:9000'']
       (example_descriptor [example_network 1 ''Started'' ''/n/1'' [example_node ''LND'' ''bob'' 8083]]))
       ''bob''
     = Inr (Some ''/n/1/volumes/lnd/bob'', Some ''https://127.0.0.1:8083'')"
proof -
  have h: "environ (example_world [''LND_DIR'' \<mapsto> [], ''REST_HOST'' \<mapsto> ''https://10.0.0.1:9000'']
       (example_descriptor [example_network 1 ''Started'' ''/n/1'' [example_node ''LND'' ''bob'' 8083]]))
     ''LND_DIR'' = Some [] \<or>
     environ (example_world [''LND_DIR'' \<mapsto> [], ''REST_HOST'' \<mapsto> ''https://10.0.0.1:9000'']
       (example_descriptor [example_network 1 ''Started'' ''/n/1'' [example_node ''LND'' ''bob'' 8083]]))
     ''REST_HOST'' = Some []"
    by (simp add: example_world_def)
  show ?thesis
    using empty_override_is_unset [OF h, of "''bob''"]
    by (simp add: example_one_network) (simp add: example_world_def)
qed

subsection \<open>C5: the first match wins\<close>

text \<open>
  Claim C5. A node that \<^verbatim>\<open>find_polar_node\<close> returns is built from a lightning-node
  entry whose implementation is \<^verbatim>\<open>LND\<close> and whose name is the requested name, both up
  to letter case, and it is the first such entry: the networks sorted before its network
  have no matching entry, and no entry before it in its own network matches.
\<close>

theorem first_match_wins:
  assumes "find_polar_node w node_name = Inr (Some r)"
  shows "\<exists>data networks ss before network after pre node post.
           networks_file w = Parsed data
           \<and> py_get data ''networks'' (JArr []) = Inr networks
           \<and> sorted_reverse w networks = Inr ss
           \<and> ss = before @ network # after
           \<and> (\<forall>n\<in>set before. \<exists>ns. lightning_nodes n = Some ns \<and> (\<forall>x\<in>set ns. \<not> node_matches node_name x))
           \<and> lightning_nodes network = Some (pre @ node # post)
           \<and> (\<forall>x\<in>set pre. \<not> node_matches node_name x)
           \<and> node_matches node_name node
           \<and> py_get node ''name'' (JStr []) = Inr (JStr (name r))
           \<and> build_node w network node (name r) = Inr r"
proof -
  from find_polar_node_Some [OF assms] obtain data networks ss where
    a: "networks_file w = Parsed data" "py_get data ''networks'' (JArr []) = Inr networks"
       "sorted_reverse w networks = Inr ss" and s: "scan_networks w node_name ss = Inr (Some r)"
    by blast
  from scan_networks_Some [OF s] a show ?thesis
    by blast
qed

theorem first_match_wins_witness:
  "find_polar_node (example_world Map.empty (example_descriptor
       [example_network 7 ''Stopped'' ''/n/7'' [example_node ''LND'' ''bob'' 8083],
        example_network 2 ''Started'' ''/n/2''
          [example_node ''c-lightning'' ''bob'' 8083, example_node ''lnd'' ''Bob'' 8084]])) ''BOB''
   = Inr (Some \<lparr>name = ''Bob'', lnd_dir = ''/n/2/volumes/lnd/Bob'',
                 rest_host = ''https://127.0.0.1:8084'', rest_port = JInt 8084,
                 network_name = JStr ''net''\<rparr>)
   \<and> (\<exists>network node. node_matches ''BOB'' node
         \<and> py_get node ''name'' (JStr []) = Inr (JStr ''Bob'')
         \<and> build_node (example_world Map.empty (example_descriptor
       [example_network 7 ''Stopped'' ''/n/7'' [example_node ''LND'' ''bob'' 8083],
        example_network 2 ''Started'' ''/n/2''
          [example_node ''c-lightning'' ''bob'' 8083, example_node ''lnd'' ''Bob'' 8084]])) network node ''Bob''
           = Inr \<lparr>name = ''Bob'', lnd_dir = ''/n/2/volumes/lnd/Bob'',
                 rest_host = ''https://127.0.0.1:8084'', rest_port = JInt 8084,
                 network_name = JStr ''net''\<rparr>)"
proof -
  have h: "find_polar_node (example_world Map.empty (example_descriptor
       [example_network 7 ''Stopped'' ''/n/7'' [example_node ''LND'' ''bob'' 8083],
        example_network 2 ''Started'' ''/n/2''
          [example_node ''c-lightning'' ''bob'' 8083, example_node ''lnd'' ''Bob'' 8084]])) ''BOB''
   = Inr (Some \<lparr>name = ''Bob'', lnd_dir = ''/n/2/volumes/lnd/Bob'',
                 rest_host = ''https://127.0.0.1:8084'', rest_port = JInt 8084,
                 network_name = JStr ''net''\<rparr>)"
    by (rule example_two_networks)
  from first_match_wins [OF h] obtain network node where
    "node_matches ''BOB'' node"
    "py_get node ''name'' (JStr []) = Inr (JStr ''Bob'')"
    "build_node (example_world Map.empty (example_descriptor
       [example_network 7 ''Stopped'' ''/n/7'' [example_node ''LND'' ''bob'' 8083],
        example_network 2 ''Started'' ''/n/2''
          [example_node ''c-lightning'' ''bob'' 8083, example_node ''lnd'' ''Bob'' 8084]])) network node ''Bob''
           = Inr \<lparr>name = ''Bob'', lnd_dir = ''/n/2/volumes/lnd/Bob'',
                 rest_host = ''https://127.0.0.1:8084'', rest_port = JInt 8084,
                 network_name = JStr ''net''\<rparr>"
    by auto
  with h show ?thesis by blast
qed

subsection \<open>C10: the descriptor's spelling of the name is kept\<close>



subsection \<open>C1: the order in which networks are scanned\<close>

text \<open>
  Claim C1. \<^verbatim>\<open>find_polar_node\<close> scans the networks in the order of \<^verbatim>\<open>networks_sorted\<close>,
  a rearrangement of the descriptor's networks in which a network whose status is exactly
  \<^verbatim>\<open>Started\<close> never comes after one whose status is not, and in which, of two networks of
  the same status group, the one that comes first has the identifier that is not smaller.
  With two networks, of which network \<open>a\<close> has a matching node: when \<open>a\<close> is started
  and the other is not, the node of \<open>a\<close> is returned whatever the identifiers are; when
  both are in the same status group and \<open>a\<close> has the higher identifier, the node of \<open>a\<close>
  is returned. Both hold for the two orders in which the file can list the networks.
\<close>

theorem started_then_highest_id:
  assumes "networks_file w = Parsed data"
    and "py_get data ''networks'' (JArr []) = Inr networks"
    and "truthy networks"
    and "sorted_reverse w networks = Inr ss"
  shows "find_polar_node w node_name = scan_networks w node_name ss
     \<and> (\<forall>nets. networks = JArr nets \<longrightarrow> mset ss = mset nets)
     \<and> (\<forall>i j. i < j \<and> j < length ss \<longrightarrow>
          (started (ss ! j) \<longrightarrow> started (ss ! i))
          \<and> (\<exists>a ia b ib. sort_key_net w (ss ! i) = Inr (a, ia) \<and> sort_key_net w (ss ! j) = Inr (b, ib)
                \<and> ((started (ss ! i) \<longleftrightarrow> started (ss ! j)) \<longrightarrow> ib \<le> ia)))
     \<and> ((networks = JArr [a, b] \<or> networks = JArr [b, a]) \<and> started a \<and> \<not> started b
          \<and> scan_networks w node_name [a] = Inr (Some ra)
        \<longrightarrow> find_polar_node w node_name = Inr (Some ra))
     \<and> ((networks = JArr [a, b] \<or> networks = JArr [b, a]) \<and> (started a \<longleftrightarrow> started b)
          \<and> sort_key_net w a = Inr (ka, ia) \<and> sort_key_net w b = Inr (kb, ib) \<and> ib < ia
          \<and> scan_networks w node_name [a] = Inr (Some ra)
        \<longrightarrow> find_polar_node w node_name = Inr (Some ra))"
proof (intro conjI allI impI)
  show scan: "find_polar_node w node_name = scan_networks w node_name ss"
    using assms by (rule find_polar_node_scan)
  show "mset ss = mset nets" if "networks = JArr nets" for nets
    using assms(4) that by (simp add: sorted_reverse_mset)
  have two: "find_polar_node w node_name = Inr (Some ra)"
    if n: "networks = JArr [a, b] \<or> networks = JArr [b, a]"
      and k: "sort_key_net w a = Inr ka'" "sort_key_net w b = Inr kb'" "kb' < ka'"
      and r: "scan_networks w node_name [a] = Inr (Some ra)" for ka' kb'
  proof -
    from n assms(4) sorted_reverse_two [OF k] have "ss = [a, b]" by auto
    with scan scan_networks_head [OF r] show ?thesis by simp
  qed
  have keys: "\<exists>ia' ib'. sort_key_net w a = Inr (if started a then 1 else 0, ia')
                \<and> sort_key_net w b = Inr (if started b then 1 else 0, ib')"
    if n: "networks = JArr [a, b] \<or> networks = JArr [b, a]"
  proof -
    from sorted_reverse_JArr [OF assms(4)] n
    have "(\<exists>ks. sort_keys w [a, b] = Inr ks) \<or> (\<exists>ks. sort_keys w [b, a] = Inr ks)"
      by auto
    then obtain xa xb where x: "sort_key_net w a = Inr xa" "sort_key_net w b = Inr xb"
      by (auto split: sum.splits)
    from sort_key_net_started [of w a "fst xa" "snd xa"] sort_key_net_started [of w b "fst xb" "snd xb"] x
    have "sort_key_net w a = Inr (if started a then 1 else 0, snd xa)"
      "sort_key_net w b = Inr (if started b then 1 else 0, snd xb)"
      by (simp_all add: prod_eq_iff)
    then show ?thesis by blast
  qed
  show "find_polar_node w node_name = Inr (Some ra)"
    if h: "(networks = JArr [a, b] \<or> networks = JArr [b, a]) \<and> started a \<and> \<not> started b
          \<and> scan_networks w node_name [a] = Inr (Some ra)"
  proof -
    from h keys obtain ia' ib' where "sort_key_net w a = Inr (1, ia')" "sort_key_net w b = Inr (0, ib')"
      by auto
    moreover have "((0::nat), ib') < (1, ia')" by simp
    ultimately show ?thesis using two h by blast
  qed
  show "find_polar_node w node_name = Inr (Some ra)"
    if h: "(networks = JArr [a, b] \<or> networks = JArr [b, a]) \<and> (started a \<longleftrightarrow> started b)
          \<and> sort_key_net w a = Inr (ka, ia) \<and> sort_key_net w b = Inr (kb, ib) \<and> ib < ia
          \<and> scan_networks w node_name [a] = Inr (Some ra)"
  proof -
    from h sort_key_net_started [of w a ka ia] sort_key_net_started [of w b kb ib]
    have "ka = kb" by simp
    with h have "(kb, ib) < (ka, ia)" by simp
    with two h show ?thesis by blast
  qed
  fix i j
  assume ij: "i < j \<and> j < length ss"
  from sorted_reverse_order [OF assms(4), of i j] ij obtain a' ia' b' ib' where
    o: "sort_key_net w (ss ! i) = Inr (a', ia')" "sort_key_net w (ss ! j) = Inr (b', ib')"
       "(b', ib') \<le> (a', ia')"
    by (metis surj_pair)
  note sa = sort_key_net_started [OF o(1)] and sb = sort_key_net_started [OF o(2)]
  show "started (ss ! i)" if "started (ss ! j)"
    using that o(3) sa sb by (auto split: if_splits)
  have "(started (ss ! i) \<longleftrightarrow> started (ss ! j)) \<longrightarrow> ib' \<le> ia'"
    using o(3) sa sb by (auto split: if_splits)
  with o(1,2) show "\<exists>a ia b ib. sort_key_net w (ss ! i) = Inr (a, ia) \<and> sort_key_net w (ss ! j) = Inr (b, ib)
                \<and> ((started (ss ! i) \<longleftrightarrow> started (ss ! j)) \<longrightarrow> ib \<le> ia)"
    by blast
qed

theorem started_then_highest_id_witness:
  "started (example_network 2 ''Started'' ''/n/2'' [example_node ''lnd'' ''bob'' 8084])
   \<and> \<not> started (example_network 7 ''Stopped'' ''/n/7'' [example_node ''LND'' ''bob'' 8083])
   \<and> find_polar_node (example_world Map.empty (example_descriptor
        [example_network 7 ''Stopped'' ''/n/7'' [example_node ''LND'' ''bob'' 8083],
         example_network 2 ''Started'' ''/n/2'' [example_node ''lnd'' ''bob'' 8084]])) ''bob''
      = Inr (Some \<lparr>name = ''bob'', lnd_dir = ''/n/2/volumes/lnd/bob'',
                 rest_host = ''https://127.0.0.1:8084'', rest_port = JInt 8084,
                 network_name = JStr ''net''\<rparr>)
   \<and> find_polar_node (example_world Map.empty (example_descriptor
        [example_network 1 ''Started'' ''/n/1'' [example_node ''LND'' ''bob'' 8083],
         example_network 2 ''Started'' ''/n/2'' [example_node ''lnd'' ''bob'' 8084]])) ''bob''
      = Inr (Some \<lparr>name = ''bob'', lnd_dir = ''/n/2/volumes/lnd/bob'',
                 rest_host = ''https://127.0.0.1:8084'', rest_port = JInt 8084,
                 network_name = JStr ''net''\<rparr>)"
proof -
  let ?n7 = "example_network 7 ''Stopped'' ''/n/7'' [example_node ''LND'' ''bob'' 8083]"
  let ?n1 = "example_network 1 ''Started'' ''/n/1'' [example_node ''LND'' ''bob'' 8083]"
  let ?n2 = "example_network 2 ''Started'' ''/n/2'' [example_node ''lnd'' ''bob'' 8084]"
  let ?r = "\<lparr>name = ''bob'', lnd_dir = ''/n/2/volumes/lnd/bob'',
             rest_host = ''https://127.0.0.1:8084'', rest_port = JInt 8084,
             network_name = JStr ''net''\<rparr>"
  let ?w1 = "example_world Map.empty (example_descriptor [?n7, ?n2])"
  let ?w2 = "example_world Map.empty (example_descriptor [?n1, ?n2])"
  have k7: "sort_key_net w ?n7 = Inr (0, 7)" for w
    by (simp add: sort_key_net_def example_network_def)
  have k1: "sort_key_net w ?n1 = Inr (1, 1)" for w
    by (simp add: sort_key_net_def example_network_def)
  have k2: "sort_key_net w ?n2 = Inr (1, 2)" for w
    by (simp add: sort_key_net_def example_network_def)
  have s2: "started ?n2" and s7: "\<not> started ?n7" and s1: "started ?n1"
    by (simp_all add: started_def example_network_def)
  have scan: "scan_networks (example_world Map.empty f) ''bob'' [?n2] = Inr (Some ?r)" for f
    by (simp add: example_defs scan_defs str_of_int_8084)
  have f1: "networks_file ?w1 = Parsed (JObj [(''networks'', JArr [?n7, ?n2])])"
    and f2: "networks_file ?w2 = Parsed (JObj [(''networks'', JArr [?n1, ?n2])])"
    by (simp_all add: example_world_def example_descriptor_def)
  have g1: "py_get (JObj [(''networks'', JArr [?n7, ?n2])]) ''networks'' (JArr []) = Inr (JArr [?n7, ?n2])"
    and g2: "py_get (JObj [(''networks'', JArr [?n1, ?n2])]) ''networks'' (JArr []) = Inr (JArr [?n1, ?n2])"
    by simp_all
  have t1: "truthy (JArr [?n7, ?n2])" and t2: "truthy (JArr [?n1, ?n2])"
    by simp_all
  have o1: "sorted_reverse ?w1 (JArr [?n7, ?n2]) = Inr [?n2, ?n7]"
    by (simp add: sorted_reverse_def k7 k2)
  have o2: "sorted_reverse ?w2 (JArr [?n1, ?n2]) = Inr [?n2, ?n1]"
    by (simp add: sorted_reverse_def k1 k2)
  have a: "find_polar_node ?w1 ''bob'' = Inr (Some ?r)"
    using started_then_highest_id [OF f1 g1 t1 o1, of "''bob''" ?n2 ?n7 ?r] s2 s7 scan
    by blast
  have b: "find_polar_node ?w2 ''bob'' = Inr (Some ?r)"
    using conjunct2 [OF conjunct2 [OF conjunct2 [OF conjunct2
            [OF started_then_highest_id [OF f2 g2 t2 o2, of "''bob''" ?n2 ?n1 ?r 1 2 1 1]]]]]
      s2 s1 scan k1 k2
    by simp
  from s2 s7 a b show ?thesis by simp
qed

subsection \<open>C7: a client without a macaroon\<close>

text \<open>
  Claim C7, as the specification states it: for every directory in which the token file
  \<^verbatim>\<open>data/chain/bitcoin/regtest/admin.macaroon\<close> is absent, construction succeeds. In a
  directory whose \<^verbatim>\<open>data\<close> is a regular file the token file is absent, \<^verbatim>\<open>open\<close> raises
  \<^verbatim>\<open>NotADirectoryError\<close>, which the \<^verbatim>\<open>except FileNotFoundError\<close> clause does not catch, and
  \<^verbatim>\<open>LNDClient.__init__\<close> raises it.
\<close>

theorem construction_counterexample:
  "LNDClient_init \<lparr>LND_DIR = ''/home/dev/bootcamp-code/day3/bob'', REST_HOST = ''https://localhost:8082''\<rparr>
     (\<lambda>p. if p = ''/srv/node/data/chain/bitcoin/regtest/admin.macaroon'' then NotADirectory
           else NotFound)
     (Some ''/srv/node'') None
   = Inl NotADirectoryError"
  by (simp add: LNDClient_init_def py_or_def macaroon_path_def join_def join2_def)

text \<open>
  Claim C7, amended. When opening the file \<^verbatim>\<open>data/chain/bitcoin/regtest/admin.macaroon\<close>
  under the configured directory raises \<^verbatim>\<open>FileNotFoundError\<close> (the file, or a directory on
  the way to it, does not exist), \<^verbatim>\<open>LNDClient.__init__\<close> returns a client whose macaroon
  is \<^verbatim>\<open>None\<close>; every call of \<^verbatim>\<open>_request\<close> on it, and so every endpoint method, raises
  \<^verbatim>\<open>ConnectionError\<close> with a message that contains the configured directory, and makes
  no HTTP call.
\<close>

theorem missing_macaroon:
  assumes "files (macaroon_path (py_or dir (LND_DIR m))) = NotFound"
  shows "\<exists>self. LNDClient_init m files dir host = Inr self
           \<and> self_macaroon self = None
           \<and> self_lnd_dir self = py_or dir (LND_DIR m)
           \<and> sublist (self_lnd_dir self) (not_found_message (self_lnd_dir self))
           \<and> (\<forall>t method endpoint data.
                 LNDClient_request self t method endpoint data =
                   (Inl (ConnectionError (not_found_message (self_lnd_dir self))), []))
           \<and> (\<forall>t amount memo r_hash_str pay_req.
                 (\<forall>result \<in> set [get_info self t, channel_balance self t, wallet_balance self t,
                    add_invoice self t amount memo, lookup_invoice self t r_hash_str,
                    list_invoices self t, list_payments self t, decode_pay_req self t pay_req,
                    list_channels self t, list_peers self t].
                   result = (Inl (ConnectionError (not_found_message (self_lnd_dir self))), [])))"
proof -
  define self where "self = \<lparr>self_lnd_dir = py_or dir (LND_DIR m), self_rest_host = py_or host (REST_HOST m),
     self_macaroon = None, self_tls_cert = join (py_or dir (LND_DIR m)) [''tls.cert'']\<rparr>"
  have i: "LNDClient_init m files dir host = Inr self"
    using assms by (simp add: LNDClient_init_def self_def Let_def)
  have n: "self_macaroon self = None \<or> self_macaroon self = Some []"
    by (simp add: self_def)
  note r = request_without_macaroon [OF n]
  have "self_macaroon self = None" "self_lnd_dir self = py_or dir (LND_DIR m)"
    by (simp_all add: self_def)
  moreover have "\<forall>t amount memo r_hash_str pay_req.
                 (\<forall>result \<in> set [get_info self t, channel_balance self t, wallet_balance self t,
                    add_invoice self t amount memo, lookup_invoice self t r_hash_str,
                    list_invoices self t, list_payments self t, decode_pay_req self t pay_req,
                    list_channels self t, list_peers self t].
                   result = (Inl (ConnectionError (not_found_message (self_lnd_dir self))), []))"
    by (simp add: get_info_def channel_balance_def wallet_balance_def add_invoice_def
        lookup_invoice_def list_invoices_def list_payments_def decode_pay_req_def
        list_channels_def list_peers_def r)
  ultimately show ?thesis
    using i r not_found_message_names_dir by blast
qed

theorem missing_macaroon_witness:
  "(\<lambda>p. NotFound) (macaroon_path (py_or (Some ''/n/1/volumes/lnd/bob'')
       (LND_DIR \<lparr>LND_DIR = ''/home/dev/bootcamp-code/day3/bob'', REST_HOST = ''https://localhost:8082''\<rparr>)))
     = NotFound
   \<and> (\<exists>self. LNDClient_init \<lparr>LND_DIR = ''/home/dev/bootcamp-code/day3/bob'', REST_HOST = ''https://localhost:8082''\<rparr>
               (\<lambda>p. NotFound) (Some ''/n/1/volumes/lnd/bob'') None = Inr self
         \<and> self_macaroon self = None
         \<and> (\<forall>t. get_info self t = (Inl (ConnectionError (not_found_message ''/n/1/volumes/lnd/bob'')), [])))"
proof -
  have h: "(\<lambda>p. NotFound) (macaroon_path (py_or (Some ''/n/1/volumes/lnd/bob'')
       (LND_DIR \<lparr>LND_DIR = ''/home/dev/bootcamp-code/day3/bob'', REST_HOST = ''https://localhost:8082''\<rparr>)))
     = NotFound"
    by simp
  have d: "py_or (Some ''/n/1/volumes/lnd/bob'')
       (LND_DIR \<lparr>LND_DIR = ''/home/dev/bootcamp-code/day3/bob'', REST_HOST = ''https://localhost:8082''\<rparr>)
     = ''/n/1/volumes/lnd/bob''"
    by (simp add: py_or_def)
  from missing_macaroon [where files = "\<lambda>p. NotFound" and dir = "Some ''/n/1/volumes/lnd/bob''"
      and m = "\<lparr>LND_DIR = ''/home/dev/bootcamp-code/day3/bob'', REST_HOST = ''https://localhost:8082''\<rparr>"
      and host = None] h
  obtain self where
    s: "LNDClient_init \<lparr>LND_DIR = ''/home/dev/bootcamp-code/day3/bob'', REST_HOST = ''https://localhost:8082''\<rparr>
               (\<lambda>p. NotFound) (Some ''/n/1/volumes/lnd/bob'') None = Inr self"
      "self_macaroon self = None"
      "self_lnd_dir self = py_or (Some ''/n/1/volumes/lnd/bob'')
       (LND_DIR \<lparr>LND_DIR = ''/home/dev/bootcamp-code/day3/bob'', REST_HOST = ''https://localhost:8082''\<rparr>)"
      "\<forall>t method endpoint data.
                 LNDClient_request self t method endpoint data =
                   (Inl (ConnectionError (not_found_message (self_lnd_dir self))), [])"
    by blast
  from s(3,4) d have "\<forall>t. get_info self t = (Inl (ConnectionError (not_found_message ''/n/1/volumes/lnd/bob'')), [])"
    by (simp add: get_info_def)
  with s(1,2) h show ?thesis by blast
qed

subsection \<open>C8: an HTTP error status\<close>

text \<open>
  Claim C8, as the specification states it: every request that receives a non-success
  HTTP status raises an error carrying the status code and the response body. The source
  leaves the decision to \<^verbatim>\<open>raise_for_status\<close> of \<^verbatim>\<open>requests\<close>, which raises for the
  statuses 400 to 599 only: a response with the status 300 and a JSON body is returned
  as the result of \<^verbatim>\<open>_request\<close>.
\<close>

theorem redirect_status_counterexample:
  "LNDClient_request
       \<lparr>self_lnd_dir = ''/n/1/volumes/lnd/bob'', self_rest_host = ''https://127.0.0.1:8083'',
        self_macaroon = Some ''0201'', self_tls_cert = ''/n/1/volumes/lnd/bob/tls.cert''\<rparr>
       \<lparr>send = (\<lambda>r. Inr \<lparr>status_code = 300, reason = ''Multiple Choices'', url = req_url r,
                             content = ''[]''\<rparr>),
        json_dumps = (\<lambda>j. []), resp_json = (\<lambda>r. Some (JArr []))\<rparr>
       ''GET'' ''/v1/getinfo'' JNull
     = (Inr (JArr []),
        [\<lparr>verb = ''GET'', req_url = ''https://127.0.0.1:8083/v1/getinfo'',
          headers = [(''Grpc-Metadata-macaroon'', ''0201'')], body = None, verify = False\<rparr>])"
  by (simp add: LNDClient_request_def str_truthy_def choose_call_def raise_for_status_def)

text \<open>
  Claim C8, amended. When the response to the call of \<^verbatim>\<open>_request\<close> has a status from 400
  to 599, the statuses for which \<^verbatim>\<open>raise_for_status\<close> of \<^verbatim>\<open>requests\<close> raises, \<^verbatim>\<open>_request\<close>
  raises an \<^verbatim>\<open>HTTPError\<close> that keeps the response, with its status code and body, and
  whose message starts with the status code; for the status 503 the message contains
  \<^verbatim>\<open>503\<close>.
\<close>

theorem http_error_status:
  assumes "self_macaroon self = Some mac" and "mac \<noteq> []"
    and "choose_call t mac method (self_rest_host self @ endpoint) data = Inr req"
    and "send t req = Inr resp"
    and "400 \<le> status_code resp" and "status_code resp < 600"
  shows "\<exists>msg. LNDClient_request self t method endpoint data = (Inl (HTTPError msg resp), [req])
           \<and> prefix (str_of_int (status_code resp)) msg
           \<and> (status_code resp = 503 \<longrightarrow> sublist ''503'' msg)"
proof -
  from raise_for_status_error [OF assms(5,6)] obtain msg where
    m: "raise_for_status resp = Inl (HTTPError msg resp)" "prefix (str_of_int (status_code resp)) msg"
    by blast
  have "LNDClient_request self t method endpoint data = (Inl (HTTPError msg resp), [req])"
    using assms(1-4) m(1) by (simp add: LNDClient_request_def str_truthy_def)
  moreover have "sublist ''503'' msg" if "status_code resp = 503"
    using m(2) that by (simp add: str_of_int_503 prefix_imp_sublist)
  ultimately show ?thesis
    using m(2) by blast
qed

theorem http_error_status_witness:
  "\<exists>msg. LNDClient_request
       \<lparr>self_lnd_dir = ''/n/1/volumes/lnd/bob'', self_rest_host = ''https://127.0.0.1:8083'',
        self_macaroon = Some ''0201'', self_tls_cert = ''/n/1/volumes/lnd/bob/tls.cert''\<rparr>
       \<lparr>send = (\<lambda>r. Inr \<lparr>status_code = 503, reason = ''Service Unavailable'', url = req_url r,
                             content = ''unavailable''\<rparr>),
        json_dumps = (\<lambda>j. []), resp_json = (\<lambda>r. None)\<rparr>
       ''GET'' ''/v1/getinfo'' JNull
     = (Inl (HTTPError msg \<lparr>status_code = 503, reason = ''Service Unavailable'',
                             url = ''https://127.0.0.1:8083/v1/getinfo'', content = ''unavailable''\<rparr>),
        [\<lparr>verb = ''GET'', req_url = ''https://127.0.0.1:8083/v1/getinfo'',
          headers = [(''Grpc-Metadata-macaroon'', ''0201'')], body = None, verify = False\<rparr>])
     \<and> sublist ''503'' msg"
proof -
  let ?self = "\<lparr>self_lnd_dir = ''/n/1/volumes/lnd/bob'', self_rest_host = ''https://127.0.0.1:8083'',
        self_macaroon = Some ''0201'', self_tls_cert = ''/n/1/volumes/lnd/bob/tls.cert''\<rparr>"
  let ?t = "\<lparr>send = (\<lambda>r. Inr \<lparr>status_code = 503, reason = ''Service Unavailable'', url = req_url r,
                             content = ''unavailable''\<rparr>),
        json_dumps = (\<lambda>j. []), resp_json = (\<lambda>r. None)\<rparr>"
  let ?req = "\<lparr>verb = ''GET'', req_url = ''https://127.0.0.1:8083/v1/getinfo'',
          headers = [(''Grpc-Metadata-macaroon'', ''0201'')], body = None, verify = False\<rparr>"
  let ?resp = "\<lparr>status_code = 503, reason = ''Service Unavailable'',
                             url = ''https://127.0.0.1:8083/v1/getinfo'', content = ''unavailable''\<rparr>"
  have h1: "self_macaroon ?self = Some ''0201''" by simp
  have h2: "''0201'' \<noteq> []" by simp
  have h3: "choose_call ?t ''0201'' ''GET'' (self_rest_host ?self @ ''/v1/getinfo'') JNull = Inr ?req"
    by (simp add: choose_call_def)
  have h4: "send ?t ?req = Inr ?resp" by simp
  have h5: "400 \<le> status_code ?resp" by simp
  have h6: "status_code ?resp < 600" by simp
  show ?thesis
    using http_error_status [OF h1 h2 h3 h4 h5 h6] by auto
qed

subsection \<open>C4: one network, one matching node\<close>

text \<open>
  Claim C4, as the specification states it: for every descriptor with exactly one network
  and exactly one matching lightning node, resolution returns the directory
  \<^verbatim>\<open><network-path>/volumes/lnd/<name>\<close> and the URL \<^verbatim>\<open>https://127.0.0.1:<rest-port>\<close>.
  Two descriptors of that kind for which it does not: for the node name \<^verbatim>\<open>/bob\<close> under
  the path \<^verbatim>\<open>/n/1\<close> the directory returned is \<^verbatim>\<open>/bob\<close>, as \<^verbatim>\<open>os.path.join\<close> drops what
  comes before a component that starts with a slash; and for a matching node whose
  \<^verbatim>\<open>ports\<close> member is \<^verbatim>\<open>null\<close> the call \<^verbatim>\<open>ports.get\<close> raises \<^verbatim>\<open>AttributeError\<close>.
\<close>

theorem one_network_counterexample:
  "auto_detect (example_world Map.empty (example_descriptor
       [example_network 1 ''Started'' ''/n/1'' [example_node ''LND'' ''/bob'' 8083]])) ''/bob''
     = Inr (Some ''/bob'', Some ''https://127.0.0.1:8083'')
   \<and> ''/bob'' \<noteq> ''/n/1'' @ ''/volumes/lnd/'' @ ''/bob''
   \<and> auto_detect (example_world Map.empty (example_descriptor
       [example_network 1 ''Started'' ''/n/1''
          [JObj [(''implementation'', JStr ''LND''), (''name'', JStr ''bob''), (''ports'', JNull)]]])) ''bob''
     = Inl AttributeError"
  by (simp add: auto_detect_def str_truthy_def example_defs scan_defs str_of_int_8083)

text \<open>
  Claim C4, amended. Take a descriptor with exactly one network, whose identifier
  converts to an int and whose path, when it is present and does not count as false, is
  a str; let the entries before the first matching lightning node be passed over without
  an error, let the name of that node not start with a slash, and let its \<^verbatim>\<open>ports\<close>
  member, when present, be a dict. Then resolution without a full environment override
  returns the directory \<^verbatim>\<open><network-path>/volumes/lnd/<name>\<close>, where no slash is put after
  a network path that ends in one (or is empty), and where the network path is the
  descriptor's path, or \<^verbatim>\<open>~/.polar/networks/<network-id>\<close> expanded when the path is absent
  or counts as false; and it returns the URL \<^verbatim>\<open>https://127.0.0.1:<rest-port>\<close>, where the
  rest port is the \<^verbatim>\<open>rest\<close> member of \<^verbatim>\<open>ports\<close>, or 8082 when there is none.
\<close>

theorem one_network_one_match:
  assumes no_override: "\<not> (str_truthy (environ w ''LND_DIR'') \<and> str_truthy (environ w ''REST_HOST''))"
    and parsed: "networks_file w = Parsed data"
    and networks: "py_get data ''networks'' (JArr []) = Inr (JArr [network])"
    and key: "sort_key_net w network = Inr k"
    and entries: "lightning_nodes network = Some (pre @ node # post)"
    and passed: "scan_nodes w node_name network pre = Inr None"
    and impl_LND: "py_get node ''implementation'' (JStr []) = Inr (JStr impl)" "upper impl = ''LND''"
    and name_same: "py_get node ''name'' (JStr []) = Inr (JStr nm)" "lower nm = lower node_name"
    and relative: "nm = [] \<or> hd nm \<noteq> CHR ''/''"
    and path: "py_get network ''path'' (JStr []) = Inr p"
    and ident: "py_get network ''id'' (JStr []) = Inr i"
    and network_path: "if truthy p then p = JStr network_path
         else network_path = expanduser w (''~/.polar/networks/'' @ py_str w i)"
    and ports: "py_get node ''ports'' (JObj []) = Inr ports"
    and rest: "py_get ports ''rest'' (JInt 8082) = Inr port"
  shows "\<exists>r. find_polar_node w node_name = Inr (Some r)
           \<and> auto_detect w node_name = Inr (Some (lnd_dir r), Some (rest_host r))
           \<and> name r = nm
           \<and> lnd_dir r = network_path
                 @ (if network_path = [] \<or> last network_path = CHR ''/'' then [] else ''/'')
                 @ ''volumes/lnd/'' @ nm
           \<and> rest_host r = ''https://127.0.0.1:'' @ py_str w port
           \<and> (\<forall>n. port = JInt n \<longrightarrow> rest_host r = ''https://127.0.0.1:'' @ str_of_int n)"
proof -
  obtain nn where nn: "py_get network ''name'' (JStr ''unknown'') = Inr nn"
    using path by (cases network) auto
  define r where "r = \<lparr>name = nm, lnd_dir = join network_path [''volumes'', ''lnd'', nm],
     rest_host = ''https://127.0.0.1:'' @ py_str w port, rest_port = port, network_name = nn\<rparr>"
  have b: "build_node w network node nm = Inr r"
    using path ident network_path ports rest nn
    by (auto simp: build_node_def r_def split: if_splits)
  have "scan_nodes w node_name network (node # post) = Inr (Some r)"
    using impl_LND name_same b by simp
  then have "scan_nodes w node_name network (pre @ node # post) = Inr (Some r)"
    using scan_nodes_skip [OF passed] by simp
  then have "scan_networks w node_name [network] = Inr (Some r)"
    using entries by (auto simp: lightning_nodes_def split: sum.splits)
  moreover have "find_polar_node w node_name = scan_networks w node_name [network]"
    using parsed networks sorted_reverse_single [OF key] by (simp add: find_polar_node_def)
  ultimately have f: "find_polar_node w node_name = Inr (Some r)" by simp
  then have a: "auto_detect w node_name = Inr (Some (lnd_dir r), Some (rest_host r))"
    using auto_detect_falls_through [OF no_override, of node_name] by simp
  have d: "lnd_dir r = network_path
                 @ (if network_path = [] \<or> last network_path = CHR ''/'' then [] else ''/'')
                 @ ''volumes/lnd/'' @ nm"
    using join_relative_name [OF relative, of network_path] by (simp add: r_def)
  have "name r = nm" "rest_host r = ''https://127.0.0.1:'' @ py_str w port"
    by (simp_all add: r_def)
  with f a d show ?thesis
    by auto
qed

theorem one_network_one_match_witness:
  "auto_detect (example_world Map.empty (example_descriptor
       [JObj [(''id'', JInt 3),
              (''nodes'', JObj [(''lightning'',
                 JArr [example_node ''c-lightning'' ''bob'' 8083,
                       JObj [(''implementation'', JStr ''LND''), (''name'', JStr ''bob'')]])])]])) ''bob''
   = Inr (Some ''/home/dev/.polar/networks/3/volumes/lnd/bob'', Some ''https://127.0.0.1:8082'')"
proof -
  let ?node = "JObj [(''implementation'', JStr ''LND''), (''name'', JStr ''bob'')]"
  let ?other = "example_node ''c-lightning'' ''bob'' 8083"
  let ?net = "JObj [(''id'', JInt 3), (''nodes'', JObj [(''lightning'', JArr [?other, ?node])])]"
  let ?w = "example_world Map.empty (example_descriptor [?net])"
  have h0: "\<not> (str_truthy (environ ?w ''LND_DIR'') \<and> str_truthy (environ ?w ''REST_HOST''))"
    by (simp add: example_world_def str_truthy_def)
  have h1: "networks_file ?w = Parsed (JObj [(''networks'', JArr [?net])])"
    by (simp add: example_world_def example_descriptor_def)
  have h2: "py_get (JObj [(''networks'', JArr [?net])]) ''networks'' (JArr []) = Inr (JArr [?net])"
    by simp
  have h3: "sort_key_net ?w ?net = Inr (0, 3)"
    by (simp add: sort_key_net_def)
  have h4: "lightning_nodes ?net = Some ([?other] @ ?node # [])"
    by (simp add: lightning_nodes_def)
  have h5: "scan_nodes ?w ''bob'' ?net [?other] = Inr None"
    by (simp add: example_node_def upper_def upper_char_def)
  have h6: "py_get ?node ''implementation'' (JStr []) = Inr (JStr ''LND'')" by simp
  have h7: "upper ''LND'' = ''LND''" by (simp add: upper_def upper_char_def)
  have h8: "py_get ?node ''name'' (JStr []) = Inr (JStr ''bob'')" by simp
  have h9: "lower ''bob'' = lower ''bob''" by simp
  have hr: "''bob'' = [] \<or> hd ''bob'' \<noteq> CHR ''/''" by simp
  have h10: "py_get ?net ''path'' (JStr []) = Inr (JStr [])" by simp
  have h11: "py_get ?net ''id'' (JStr []) = Inr (JInt 3)" by simp
  have s3: "str_of_int 3 = ''3''"
    by (simp add: str_of_int_def str_of_nat.simps[of 3] digit_char_def)
  have h12: "if truthy (JStr []) then JStr [] = JStr ''/home/dev/.polar/networks/3''
         else ''/home/dev/.polar/networks/3'' = expanduser ?w (''~/.polar/networks/'' @ py_str ?w (JInt 3))"
    by (simp add: example_world_def s3)
  have h13: "py_get ?node ''ports'' (JObj []) = Inr (JObj [])" by simp
  have h14: "py_get (JObj []) ''rest'' (JInt 8082) = Inr (JInt 8082)" by simp
  have s8082: "str_of_int 8082 = ''8082''"
    by (simp add: str_of_int_def str_of_nat.simps[of 8082] str_of_nat.simps[of 808]
        str_of_nat.simps[of 80] str_of_nat.simps[of 8] digit_char_def)
  from one_network_one_match [OF h0 h1 h2 h3 h4 h5 h6 h7 h8 h9 hr h10 h11 h12 h13 h14]
  obtain r where r: "find_polar_node ?w ''bob'' = Inr (Some r)
      \<and> auto_detect ?w ''bob'' = Inr (Some (lnd_dir r), Some (rest_host r))
      \<and> name r = ''bob''
      \<and> lnd_dir r = ''/home/dev/.polar/networks/3''
            @ (if ''/home/dev/.polar/networks/3'' = [] \<or> last ''/home/dev/.polar/networks/3'' = CHR ''/''
               then [] else ''/'')
            @ ''volumes/lnd/'' @ ''bob''
      \<and> rest_host r = ''https://127.0.0.1:'' @ py_str ?w (JInt 8082)
      \<and> (\<forall>n. JInt 8082 = JInt n \<longrightarrow> rest_host r = ''https://127.0.0.1:'' @ str_of_int n)" ..
  then have "rest_host r = ''https://127.0.0.1:8082''"
    by (simp add: s8082)
  moreover from r have "lnd_dir r = ''/home/dev/.polar/networks/3/volumes/lnd/bob''"
    by simp
  moreover from r have "auto_detect ?w ''bob'' = Inr (Some (lnd_dir r), Some (rest_host r))"
    by (elim conjE)
  ultimately show ?thesis
    by simp
qed

subsection \<open>C6: when resolution returns without an exception\<close>




end
